theory Spec2Isabelle
  imports Main
begin

section \<open>Exceptions\<close>

text \<open>
  The exceptions that the modelled code can raise.  \<open>ConnectionError\<close> (a failed or
  timed-out request) and \<open>HTTPError\<close> (raised by \<open>raise_for_status\<close>) are the
  subclasses of \<open>RequestException\<close> of the requests library.  \<open>SystemExit\<close> is what
  \<open>sys.exit\<close> raises; it derives from \<open>BaseException\<close>, not from \<open>Exception\<close>.
\<close>

datatype exn =
    ConnectionError
  | HTTPError
  | FormFieldNotFoundException "string list"
  | AttributeError
  | KeyError
  | IntegrityError
  | OSError
  | SystemExit string

fun is_RequestException :: "exn \<Rightarrow> bool" where
  "is_RequestException ConnectionError = True"
| "is_RequestException HTTPError = True"
| "is_RequestException _ = False"

fun is_Exception :: "exn \<Rightarrow> bool" where
  "is_Exception (SystemExit _) = False"
| "is_Exception _ = True"

text \<open>\<open>allowed_exceptions=(RequestException, Exception)\<close>, as every decorated method passes it.\<close>

definition allowed_exceptions :: "exn \<Rightarrow> bool" where
  "allowed_exceptions e = (is_RequestException e \<or> is_Exception e)"

section \<open>The remote server and the outside world\<close>

text \<open>
  A response body is represented by what the XPath queries of the source extract from it:
  the \<open>value\<close> attribute of the four hidden inputs (\<open>.get()\<close> gives \<open>None\<close> when the
  element is absent), the \<open>(text, value)\<close> pairs of the unselected options under each
  labelled drop-down, the \<open>value\<close>s of the year options (\<open>.getall()\<close>), the rows of the
  \<open>GridView\<close> table, and the five labelled spans of the Nakal document.
\<close>

record table_row =
  href :: "string option"
  td2 :: "string option"
  td3 :: "string option"

record page =
  input_VIEWSTATE :: "string option"
  input_EVENTARGUMENT :: "string option"
  input_EVENTVALIDATION :: "string option"
  input_VIEWSTATEGENERATOR :: "string option"
  select_District :: "(string option \<times> string option) list"
  select_Tehsil :: "(string option \<times> string option) list"
  select_Village :: "(string option \<times> string option) list"
  select_Year :: "string list"
  select_Khasra :: "(string option \<times> string option) list"
  GridView_rows :: "table_row list"
  lblvill :: "string option"
  lblhad :: "string option"
  lblteh :: "string option"
  lbldis :: "string option"
  lblyer :: "string option"

text \<open>
  What the transport gives for one request: no response at all (the request raises), a
  response with an error status (\<open>raise_for_status\<close> raises), or a page.
\<close>

datatype reply = Unreachable | BadStatus | Page page

text \<open>
  A request: the URL, the form data of a POST (in the order of the dict literal), the
  timeout.  The headers are two constant dicts of the program and are left out.
\<close>

datatype request =
    GET string "nat option"
  | POST string "(string \<times> string option) list" "nat option"

datatype print_item =
    Line string
  | ErrorRetrying exn nat nat
  | TracebackText "exn option"

datatype event =
    Sent request
  | Slept nat
  | Printed print_item
  | WroteText string

text \<open>
  The world outside the process: the replies the server will give to the coming requests,
  in order, everything the process has done so far, and the paths at which
  \<open>write_text\<close> fails (a missing directory, a read-only file).  When the script is
  used up the server is taken to be unreachable.
\<close>

record world =
  script :: "reply list"
  trace :: "event list"
  unwritable :: "string list"

definition emit :: "event \<Rightarrow> world \<Rightarrow> world" where
  "emit ev w = w\<lparr>trace := trace w @ [ev]\<rparr>"

text \<open>One request and \<open>response.raise_for_status()\<close>.\<close>

definition send :: "request \<Rightarrow> world \<Rightarrow> (exn + page) \<times> world" where
  "send req w =
     (let w1 = emit (Sent req) w in
      case script w1 of
        [] \<Rightarrow> (Inl ConnectionError, w1)
      | Unreachable # rest \<Rightarrow> (Inl ConnectionError, w1\<lparr>script := rest\<rparr>)
      | BadStatus # rest \<Rightarrow> (Inl HTTPError, w1\<lparr>script := rest\<rparr>)
      | Page p # rest \<Rightarrow> (Inr p, w1\<lparr>script := rest\<rparr>))"

section \<open>The session object\<close>

text \<open>
  The fields of \<open>JamabandiDataExtractor\<close> that change; \<open>req_session\<close> is the transport
  above and \<open>request_timeout\<close> is the constant 40.
\<close>

record jamabandi =
  viewstate :: "string option"
  event_arg :: "string option"
  event_validation :: "string option"
  viewstate_generator :: "string option"

definition JamabandiDataExtractor_init :: jamabandi where
  "JamabandiDataExtractor_init =
     \<lparr>viewstate = None, event_arg = None, event_validation = None, viewstate_generator = None\<rparr>"

definition request_timeout :: nat where
  "request_timeout = 40"

definition jamabandi_uri :: string where
  "jamabandi_uri = ''https://jamabandi.nic.in/land%20records/NakalRecord''"

type_synonym state = "jamabandi \<times> world"

definition say :: "print_item \<Rightarrow> state \<Rightarrow> state" where
  "say item s = (fst s, emit (Printed item) (snd s))"

definition time_sleep :: "nat \<Rightarrow> state \<Rightarrow> state" where
  "time_sleep d s = (fst s, emit (Slept d) (snd s))"

text \<open>Python's \<open>not v\<close> for a value that is \<open>None\<close> or a string.\<close>

definition falsy :: "string option \<Rightarrow> bool" where
  "falsy v = (v = None \<or> v = Some [])"

section \<open>The retry decorator\<close>

definition exit_message :: string where
  "exit_message = ''Please try again later; something went wrong.''"

text \<open>
  The \<open>while attempt < retries\<close> loop of \<open>wrapper\<close>, with its two local variables
  \<open>attempt\<close> and \<open>err\<close>.  An exception outside \<open>allowed_exceptions\<close> propagates.
\<close>

function wrapper ::
  "nat \<Rightarrow> nat \<Rightarrow> (exn \<Rightarrow> bool) \<Rightarrow> (state \<Rightarrow> (exn + 'a) \<times> state) \<Rightarrow>
   nat \<Rightarrow> exn option \<Rightarrow> state \<Rightarrow> (exn + 'a) \<times> state" where
  "wrapper retries delay allowed func attempt err s =
     (if attempt < retries then
        (case func s of
           (Inr v, s1) \<Rightarrow> (Inr v, s1)
         | (Inl e, s1) \<Rightarrow>
             if allowed e then
               wrapper retries delay allowed func (attempt + 1) (Some e)
                 (time_sleep delay (say (ErrorRetrying e (attempt + 1) retries) s1))
             else (Inl e, s1))
      else
        (Inl (SystemExit exit_message),
         say (Line ''All retries failed. Here's the traceback:'') (say (TracebackText err) s)))"
  by pat_completeness auto
termination
  by (relation "measure (\<lambda>(retries, delay, allowed, func, attempt, err, s). retries - attempt)") auto

declare wrapper.simps [simp del]

definition retry_on_exception ::
  "nat \<Rightarrow> nat \<Rightarrow> (exn \<Rightarrow> bool) \<Rightarrow> (state \<Rightarrow> (exn + 'a) \<times> state) \<Rightarrow> state \<Rightarrow> (exn + 'a) \<times> state" where
  "retry_on_exception retries delay allowed func s = wrapper retries delay allowed func 0 None s"

section \<open>Dictionaries and strings\<close>

text \<open>
  A Python dict as the list of its items in insertion order, with unique keys:
  \<open>d[k] = v\<close> overwrites the value of a key that is present and appends a new key.
\<close>

type_synonym ('k, 'v) dict = "('k \<times> 'v) list"

fun dict_setitem :: "('k, 'v) dict \<Rightarrow> 'k \<Rightarrow> 'v \<Rightarrow> ('k, 'v) dict" where
  "dict_setitem [] k v = [(k, v)]"
| "dict_setitem (p # ps) k v = (if fst p = k then (k, v) # ps else p # dict_setitem ps k v)"

text \<open>The comprehension \<open>{text: value for option in options}\<close>.\<close>

definition dict_comprehension :: "('k \<times> 'v) list \<Rightarrow> ('k, 'v) dict" where
  "dict_comprehension items = foldl (\<lambda>d (k, v). dict_setitem d k v) [] items"

definition dict_contains :: "('k, 'v) dict \<Rightarrow> 'k \<Rightarrow> bool" where
  "dict_contains d k = (map_of d k \<noteq> None)"

definition dict_getitem :: "('k, 'v) dict \<Rightarrow> 'k \<Rightarrow> 'v option" where
  "dict_getitem d k = map_of d k"

text \<open>\<open>s.split('$')[-1]\<close>: what follows the last dollar sign, or all of \<open>s\<close> without one.\<close>

definition split_dollar_last :: "string \<Rightarrow> string" where
  "split_dollar_last s = rev (takeWhile (\<lambda>c. c \<noteq> CHR ''$'') (rev s))"

text \<open>\<open>s.replace("')", "")\<close>: the occurrences of quote-parenthesis are removed, left to right.\<close>

fun replace_quote_paren :: "string \<Rightarrow> string" where
  "replace_quote_paren (a # b # s) =
     (if a = CHR 0x27 \<and> b = CHR '')'' then replace_quote_paren s
      else a # replace_quote_paren (b # s))"
| "replace_quote_paren s = s"

section \<open>The steps of the session\<close>

definition failed_to_extract :: print_item where
  "failed_to_extract = Line ''Failed to extract essential form fields from the Jamabandi page.''"

text \<open>\<open>get_jamabandi_page\<close>: the four fields are assigned before they are validated.\<close>

definition get_jamabandi_page_body :: "state \<Rightarrow> (exn + unit) \<times> state" where
  "get_jamabandi_page_body s =
     (case send (GET jamabandi_uri (Some request_timeout)) (snd s) of
        (Inl e, w1) \<Rightarrow> (Inl e, (fst s, w1))
      | (Inr p, w1) \<Rightarrow>
          (let j1 = (fst s)\<lparr>viewstate := input_VIEWSTATE p,
                            event_arg := input_EVENTARGUMENT p,
                            event_validation := input_EVENTVALIDATION p,
                            viewstate_generator := input_VIEWSTATEGENERATOR p\<rparr>
           in if falsy (viewstate j1) \<or> falsy (viewstate_generator j1) \<or> falsy (event_validation j1)
              then (Inl (FormFieldNotFoundException
                           [''viewstate'', ''event_validation'', ''viewstate_generator'']),
                    say failed_to_extract (j1, w1))
              else (Inr (), (j1, w1))))"

definition get_jamabandi_page :: "state \<Rightarrow> (exn + unit) \<times> state" where
  "get_jamabandi_page = retry_on_exception 3 5 allowed_exceptions get_jamabandi_page_body"

text \<open>
  The form data common to the seven POST steps: the event target and event argument of
  the step, then the fields every step sends with the same values.
\<close>

definition form_data ::
  "jamabandi \<Rightarrow> string \<Rightarrow> string option \<Rightarrow> (string \<times> string option) list" where
  "form_data j target argument =
     [(''__EVENTTARGET'', Some target),
      (''__EVENTARGUMENT'', argument),
      (''__LASTFOCUS'', Some []),
      (''__VIEWSTATE'', viewstate j),
      (''__VIEWSTATEGENERATOR'', viewstate_generator j),
      (''__SCROLLPOSITIONX'', Some ''0''),
      (''__SCROLLPOSITIONY'', Some ''0''),
      (''__VIEWSTATEENCRYPTED'', Some []),
      (''__EVENTVALIDATION'', event_validation j),
      (''ctl00$ContentPlaceHolder1$a'', Some ''RdobtnKhasra'')]"

definition get_districts_data :: "jamabandi \<Rightarrow> (string \<times> string option) list" where
  "get_districts_data j =
     form_data j ''ctl00$ContentPlaceHolder1$RdobtnKhasra'' (Some []) @
     [(''ctl00$ContentPlaceHolder1$ddldname'', Some ''-1'')]"

definition get_sub_districts_data :: "jamabandi \<Rightarrow> string option \<Rightarrow> (string \<times> string option) list" where
  "get_sub_districts_data j district_id =
     form_data j ''ctl00$ContentPlaceHolder1$ddldname'' (event_arg j) @
     [(''ctl00$ContentPlaceHolder1$ddldname'', district_id)]"

definition get_villeges_data ::
  "jamabandi \<Rightarrow> string option \<Rightarrow> string option \<Rightarrow> (string \<times> string option) list" where
  "get_villeges_data j district_id sub_district_id =
     form_data j ''ctl00$ContentPlaceHolder1$ddltname'' (event_arg j) @
     [(''ctl00$ContentPlaceHolder1$ddldname'', district_id),
      (''ctl00$ContentPlaceHolder1$ddltname'', sub_district_id)]"

definition get_years_data ::
  "jamabandi \<Rightarrow> string option \<Rightarrow> string option \<Rightarrow> string option \<Rightarrow> (string \<times> string option) list" where
  "get_years_data j district_id sub_district_id villege_id =
     form_data j ''ctl00$ContentPlaceHolder1$ddlvname'' (event_arg j) @
     [(''ctl00$ContentPlaceHolder1$ddldname'', district_id),
      (''ctl00$ContentPlaceHolder1$ddltname'', sub_district_id),
      (''ctl00$ContentPlaceHolder1$ddlvname'', villege_id)]"

definition get_khasras_data ::
  "jamabandi \<Rightarrow> string option \<Rightarrow> string option \<Rightarrow> string option \<Rightarrow> string \<Rightarrow>
   (string \<times> string option) list" where
  "get_khasras_data j district_id sub_district_id villege_id year =
     form_data j ''ctl00$ContentPlaceHolder1$ddlPeriod'' (event_arg j) @
     [(''ctl00$ContentPlaceHolder1$ddldname'', district_id),
      (''ctl00$ContentPlaceHolder1$ddltname'', sub_district_id),
      (''ctl00$ContentPlaceHolder1$ddlvname'', villege_id),
      (''ctl00$ContentPlaceHolder1$ddlPeriod'', Some year)]"

definition get_nakals_data ::
  "jamabandi \<Rightarrow> string option \<Rightarrow> string option \<Rightarrow> string option \<Rightarrow> string \<Rightarrow> string option \<Rightarrow>
   (string \<times> string option) list" where
  "get_nakals_data j district_id sub_district_id villege_id year khasra_id =
     form_data j ''ctl00$ContentPlaceHolder1$ddlkhasra'' (event_arg j) @
     [(''ctl00$ContentPlaceHolder1$ddldname'', district_id),
      (''ctl00$ContentPlaceHolder1$ddltname'', sub_district_id),
      (''ctl00$ContentPlaceHolder1$ddlvname'', villege_id),
      (''ctl00$ContentPlaceHolder1$ddlPeriod'', Some year),
      (''ctl00$ContentPlaceHolder1$ddlkhasra'', khasra_id)]"

definition select_nakals_data ::
  "jamabandi \<Rightarrow> string option \<Rightarrow> string option \<Rightarrow> string option \<Rightarrow> string \<Rightarrow> string option \<Rightarrow>
   string \<Rightarrow> (string \<times> string option) list" where
  "select_nakals_data j district_id sub_district_id villege_id year khasra_id nakal_id =
     form_data j ''ctl00$ContentPlaceHolder1$GridView1'' (Some nakal_id) @
     [(''ctl00$ContentPlaceHolder1$ddldname'', district_id),
      (''ctl00$ContentPlaceHolder1$ddltname'', sub_district_id),
      (''ctl00$ContentPlaceHolder1$ddlvname'', villege_id),
      (''ctl00$ContentPlaceHolder1$ddlPeriod'', Some year),
      (''ctl00$ContentPlaceHolder1$ddlkhasra'', khasra_id)]"

text \<open>
  The block every POST step repeats: send the form, \<open>raise_for_status\<close>, read
  \<open>__VIEWSTATE\<close> and \<open>__EVENTVALIDATION\<close> into local variables, raise when one of them
  is missing, and only then store them in the session object.
\<close>

definition post_and_update_state ::
  "(string \<times> string option) list \<Rightarrow> nat option \<Rightarrow> state \<Rightarrow> (exn + page) \<times> state" where
  "post_and_update_state data timeout s =
     (case send (POST jamabandi_uri data timeout) (snd s) of
        (Inl e, w1) \<Rightarrow> (Inl e, (fst s, w1))
      | (Inr p, w1) \<Rightarrow>
          if falsy (input_VIEWSTATE p) \<or> falsy (input_EVENTVALIDATION p)
          then (Inl (FormFieldNotFoundException [''viewstate'', ''event_validation'']),
                say failed_to_extract (fst s, w1))
          else (Inr p, ((fst s)\<lparr>viewstate := input_VIEWSTATE p,
                                event_validation := input_EVENTVALIDATION p\<rparr>, w1)))"

text \<open>A listing step: the options become a dict, and an empty dict is an error.\<close>

definition options_or_raise ::
  "string \<Rightarrow> (string option \<times> string option) list \<Rightarrow> state \<Rightarrow>
   (exn + (string option, string option) dict) \<times> state" where
  "options_or_raise name options s =
     (let d = dict_comprehension options
      in if d = [] then (Inl (FormFieldNotFoundException [name]), s) else (Inr d, s))"

definition get_districts_body ::
  "state \<Rightarrow> (exn + (string option, string option) dict) \<times> state" where
  "get_districts_body s =
     (case post_and_update_state (get_districts_data (fst s)) (Some request_timeout) s of
        (Inl e, s1) \<Rightarrow> (Inl e, s1)
      | (Inr p, s1) \<Rightarrow> options_or_raise ''districts'' (select_District p) s1)"

definition get_sub_districts_body ::
  "string option \<Rightarrow> state \<Rightarrow> (exn + (string option, string option) dict) \<times> state" where
  "get_sub_districts_body district_id s =
     (case post_and_update_state (get_sub_districts_data (fst s) district_id) None s of
        (Inl e, s1) \<Rightarrow> (Inl e, s1)
      | (Inr p, s1) \<Rightarrow> options_or_raise ''sub-districts'' (select_Tehsil p) s1)"

definition get_villeges_body ::
  "string option \<Rightarrow> string option \<Rightarrow> state \<Rightarrow>
   (exn + (string option, string option) dict) \<times> state" where
  "get_villeges_body district_id sub_district_id s =
     (case post_and_update_state (get_villeges_data (fst s) district_id sub_district_id) None s of
        (Inl e, s1) \<Rightarrow> (Inl e, s1)
      | (Inr p, s1) \<Rightarrow> options_or_raise ''villeges'' (select_Village p) s1)"

definition get_years_body ::
  "string option \<Rightarrow> string option \<Rightarrow> string option \<Rightarrow> state \<Rightarrow> (exn + string list) \<times> state" where
  "get_years_body district_id sub_district_id villege_id s =
     (case post_and_update_state
             (get_years_data (fst s) district_id sub_district_id villege_id) None s of
        (Inl e, s1) \<Rightarrow> (Inl e, s1)
      | (Inr p, s1) \<Rightarrow>
          if select_Year p = [] then (Inl (FormFieldNotFoundException [''years'']), s1)
          else (Inr (select_Year p), s1))"

definition get_khasras_body ::
  "string option \<Rightarrow> string option \<Rightarrow> string option \<Rightarrow> string \<Rightarrow> state \<Rightarrow>
   (exn + (string option, string option) dict) \<times> state" where
  "get_khasras_body district_id sub_district_id villege_id year s =
     (case post_and_update_state
             (get_khasras_data (fst s) district_id sub_district_id villege_id year) None s of
        (Inl e, s1) \<Rightarrow> (Inl e, s1)
      | (Inr p, s1) \<Rightarrow> options_or_raise ''khasras'' (select_Khasra p) s1)"

record nakal_detail =
  khewat_no :: "string option"
  khatoni_no :: "string option"

text \<open>
  The \<open>for\<close> loop over the table rows.  A row without a link makes \<open>nakal_id\<close>
  \<open>None\<close>, and \<open>None.split\<close> raises \<open>AttributeError\<close>.
\<close>

definition nakal_id_of_href :: "string \<Rightarrow> string" where
  "nakal_id_of_href h = ''Select$'' @ replace_quote_paren (split_dollar_last h)"

fun nakal_rows_loop ::
  "table_row list \<Rightarrow> string list \<Rightarrow> nakal_detail \<Rightarrow> exn + (string list \<times> nakal_detail)" where
  "nakal_rows_loop [] nakals detail = Inr (nakals, detail)"
| "nakal_rows_loop (r # rs) nakals detail =
     (case href r of
        None \<Rightarrow> Inl AttributeError
      | Some h \<Rightarrow>
          nakal_rows_loop rs
            (nakals @ [nakal_id_of_href h])
            (detail\<lparr>khatoni_no := td3 r, khewat_no := td2 r\<rparr>))"

definition get_nakals_body ::
  "string option \<Rightarrow> string option \<Rightarrow> string option \<Rightarrow> string \<Rightarrow> string option \<Rightarrow> state \<Rightarrow>
   (exn + (string list \<times> nakal_detail)) \<times> state" where
  "get_nakals_body district_id sub_district_id villege_id year khasra_id s =
     (case post_and_update_state
             (get_nakals_data (fst s) district_id sub_district_id villege_id year khasra_id) None s of
        (Inl e, s1) \<Rightarrow> (Inl e, s1)
      | (Inr p, s1) \<Rightarrow>
          (case nakal_rows_loop (GridView_rows p) []
                  \<lparr>khewat_no = Some [], khatoni_no = Some []\<rparr> of
             Inl e \<Rightarrow> (Inl e, s1)
           | Inr (nakals, detail) \<Rightarrow>
               if nakals = [] then (Inl (FormFieldNotFoundException [''nakals'', ''nakal_detail'']), s1)
               else (Inr (nakals, detail), s1)))"

definition select_nakals_body ::
  "string option \<Rightarrow> string option \<Rightarrow> string option \<Rightarrow> string \<Rightarrow> string option \<Rightarrow> string \<Rightarrow>
   state \<Rightarrow> (exn + unit) \<times> state" where
  "select_nakals_body district_id sub_district_id villege_id year khasra_id nakal_id s =
     (case post_and_update_state
             (select_nakals_data (fst s) district_id sub_district_id villege_id year khasra_id nakal_id)
             None s of
        (Inl e, s1) \<Rightarrow> (Inl e, s1)
      | (Inr p, s1) \<Rightarrow> (Inr (), s1))"

definition nakal_khewat_uri :: string where
  "nakal_khewat_uri = ''https://jamabandi.nic.in/land%20records/Nakal_khewat''"

text \<open>
  \<open>get_nakal_html\<close> returns the response text; the model returns the parsed page.
  \<open>write_text\<close> raises \<open>OSError\<close> at a path that cannot be written, inside the
  decorated method.
\<close>

definition get_nakal_html_body :: "string option \<Rightarrow> state \<Rightarrow> (exn + page) \<times> state" where
  "get_nakal_html_body destination_path s =
     (case send (GET nakal_khewat_uri None) (snd s) of
        (Inl e, w1) \<Rightarrow> (Inl e, (fst s, w1))
      | (Inr p, w1) \<Rightarrow>
          (case destination_path of
             None \<Rightarrow> (Inr p, (fst s, w1))
           | Some path \<Rightarrow>
               if path \<in> set (unwritable w1) then (Inl OSError, (fst s, w1))
               else (Inr p, (fst s, emit (WroteText path) w1))))"

text \<open>The decorated methods, each with \<open>retries=3, delay=5\<close>.\<close>

definition get_districts :: "state \<Rightarrow> (exn + (string option, string option) dict) \<times> state" where
  "get_districts = retry_on_exception 3 5 allowed_exceptions get_districts_body"

definition get_sub_districts ::
  "string option \<Rightarrow> state \<Rightarrow> (exn + (string option, string option) dict) \<times> state" where
  "get_sub_districts district_id =
     retry_on_exception 3 5 allowed_exceptions (get_sub_districts_body district_id)"

definition get_villeges ::
  "string option \<Rightarrow> string option \<Rightarrow> state \<Rightarrow>
   (exn + (string option, string option) dict) \<times> state" where
  "get_villeges district_id sub_district_id =
     retry_on_exception 3 5 allowed_exceptions (get_villeges_body district_id sub_district_id)"

definition get_years ::
  "string option \<Rightarrow> string option \<Rightarrow> string option \<Rightarrow> state \<Rightarrow> (exn + string list) \<times> state" where
  "get_years district_id sub_district_id villege_id =
     retry_on_exception 3 5 allowed_exceptions (get_years_body district_id sub_district_id villege_id)"

definition get_khasras ::
  "string option \<Rightarrow> string option \<Rightarrow> string option \<Rightarrow> string \<Rightarrow> state \<Rightarrow>
   (exn + (string option, string option) dict) \<times> state" where
  "get_khasras district_id sub_district_id villege_id year =
     retry_on_exception 3 5 allowed_exceptions
       (get_khasras_body district_id sub_district_id villege_id year)"

definition get_nakals ::
  "string option \<Rightarrow> string option \<Rightarrow> string option \<Rightarrow> string \<Rightarrow> string option \<Rightarrow> state \<Rightarrow>
   (exn + (string list \<times> nakal_detail)) \<times> state" where
  "get_nakals district_id sub_district_id villege_id year khasra_id =
     retry_on_exception 3 5 allowed_exceptions
       (get_nakals_body district_id sub_district_id villege_id year khasra_id)"

definition select_nakals ::
  "string option \<Rightarrow> string option \<Rightarrow> string option \<Rightarrow> string \<Rightarrow> string option \<Rightarrow> string \<Rightarrow>
   state \<Rightarrow> (exn + unit) \<times> state" where
  "select_nakals district_id sub_district_id villege_id year khasra_id nakal_id =
     retry_on_exception 3 5 allowed_exceptions
       (select_nakals_body district_id sub_district_id villege_id year khasra_id nakal_id)"

definition get_nakal_html :: "string option \<Rightarrow> state \<Rightarrow> (exn + page) \<times> state" where
  "get_nakal_html destination_path =
     retry_on_exception 3 5 allowed_exceptions (get_nakal_html_body destination_path)"

section \<open>The orchestrator\<close>

text \<open>\<open>d[k]\<close> raises \<open>KeyError\<close> for a key that is not there.\<close>

definition dict_subscript :: "('k, 'v) dict \<Rightarrow> 'k \<Rightarrow> exn + 'v" where
  "dict_subscript d k = (case dict_getitem d k of None \<Rightarrow> Inl KeyError | Some v \<Rightarrow> Inr v)"

record inner_details =
  villege :: "string option"
  hadbast_no :: "string option"
  tehsil :: "string option"
  district :: "string option"
  year :: "string option"

text \<open>The \<open>output\<close> dict of \<open>extract_data\<close>, one field for each key.\<close>

record output_dict =
  out_district_name :: string
  out_district_code :: "string option"
  out_tehsil_name :: string
  out_tehsil_code :: "string option"
  out_villege_name :: string
  out_villege_code :: "string option"
  out_jamabandi_year :: string
  out_khewat_no :: "string option"
  out_khatoni_no :: "string option"
  out_khasra_code :: "string option"
  out_khasra_no :: string
  out_inner_details :: inner_details

text \<open>\<open>extract_data\<close> returns the dict or one of its messages.\<close>

datatype extract_result = Output output_dict | Message string

definition extract_data ::
  "string \<Rightarrow> string \<Rightarrow> string \<Rightarrow> string \<Rightarrow> string option \<Rightarrow> world \<Rightarrow>
   (exn + extract_result) \<times> world" where
  "extract_data inp_district_name inp_sub_district_name inp_villege_name inp_khasra_no
     destination_path w =
   (case get_jamabandi_page
           (say (Line ''Fetching jamabandi page.'') (JamabandiDataExtractor_init, w)) of
      (Inl e, s) \<Rightarrow> (Inl e, snd s)
    | (Inr u, s) \<Rightarrow>
   (case get_districts (say (Line ''Getting districts.'') s) of
      (Inl e, s) \<Rightarrow> (Inl e, snd s)
    | (Inr districts, s) \<Rightarrow>
   if \<not> dict_contains districts (Some inp_district_name)
   then (Inr (Message (''District name:'' @ inp_district_name @ '' not found!'')), snd s)
   else
   (case dict_subscript districts (Some inp_district_name) of
      Inl e \<Rightarrow> (Inl e, snd s)
    | Inr district_id \<Rightarrow>
   (case get_sub_districts district_id (say (Line ''Getting sub-districts.'') s) of
      (Inl e, s) \<Rightarrow> (Inl e, snd s)
    | (Inr sub_districts, s) \<Rightarrow>
   if \<not> dict_contains sub_districts (Some inp_sub_district_name)
   then (Inr (Message (''sub-district/tehsil name:'' @ inp_sub_district_name @ '' not found!'')),
         snd s)
   else
   (case dict_subscript sub_districts (Some inp_sub_district_name) of
      Inl e \<Rightarrow> (Inl e, snd s)
    | Inr sub_district_id \<Rightarrow>
   (case get_villeges district_id sub_district_id (say (Line ''Getting villeges.'') s) of
      (Inl e, s) \<Rightarrow> (Inl e, snd s)
    | (Inr villeges, s) \<Rightarrow>
   if \<not> dict_contains villeges (Some inp_villege_name)
   then (Inr (Message (''Villege name:'' @ inp_villege_name @ '' not found!'')), snd s)
   else
   (case dict_subscript villeges (Some inp_villege_name) of
      Inl e \<Rightarrow> (Inl e, snd s)
    | Inr villege_id \<Rightarrow>
   (case get_years district_id sub_district_id villege_id (say (Line ''Getting years.'') s) of
      (Inl e, s) \<Rightarrow> (Inl e, snd s)
    | (Inr years, s) \<Rightarrow>
   (case years of
      [] \<Rightarrow> (Inr (Message ''Year is empty!''), snd s)
    | years_0 # _ \<Rightarrow>
   (case get_khasras district_id sub_district_id villege_id years_0
           (say (Line ''Getting khasras.'') s) of
      (Inl e, s) \<Rightarrow> (Inl e, snd s)
    | (Inr khasras, s) \<Rightarrow>
   if \<not> dict_contains khasras (Some inp_khasra_no)
   then (Inr (Message (''Khasra number:'' @ inp_khasra_no @ '' not found!'')), snd s)
   else
   (case dict_subscript khasras (Some inp_khasra_no) of
      Inl e \<Rightarrow> (Inl e, snd s)
    | Inr khasra_id \<Rightarrow>
   (case get_nakals district_id sub_district_id villege_id years_0 khasra_id
           (say (Line ''Getting nakals.'') s) of
      (Inl e, s) \<Rightarrow> (Inl e, snd s)
    | (Inr (nakals, nakal_detail), s) \<Rightarrow>
   (case nakals of
      [] \<Rightarrow> (Inr (Message ''Nakal is empty!''), snd s)
    | nakals_0 # _ \<Rightarrow>
   (case select_nakals district_id sub_district_id villege_id years_0 khasra_id nakals_0
           (say (Line ''Selecing nakal.'') s) of
      (Inl e, s) \<Rightarrow> (Inl e, snd s)
    | (Inr u, s) \<Rightarrow>
   (case get_nakal_html destination_path (say (Line ''Getting nakal html.'') s) of
      (Inl e, s) \<Rightarrow> (Inl e, snd s)
    | (Inr nakal, s) \<Rightarrow>
      (Inr (Output
         \<lparr>out_district_name = inp_district_name,
          out_district_code = district_id,
          out_tehsil_name = inp_sub_district_name,
          out_tehsil_code = sub_district_id,
          out_villege_name = inp_villege_name,
          out_villege_code = villege_id,
          out_jamabandi_year = years_0,
          out_khewat_no = khewat_no nakal_detail,
          out_khatoni_no = khatoni_no nakal_detail,
          out_khasra_code = khasra_id,
          out_khasra_no = inp_khasra_no,
          out_inner_details =
            \<lparr>villege = lblvill nakal, hadbast_no = lblhad nakal, tehsil = lblteh nakal,
             district = lbldis nakal, year = lblyer nakal\<rparr>\<rparr>),
       snd s))))))))))))))))"

section \<open>The record store\<close>

text \<open>
  The columns of \<open>LandRecord\<close> other than \<open>id\<close> and the two timestamps, which is also
  the shape of the \<open>data\<close> dict built in the main program.  A value may be \<open>None\<close> in
  the dict; every column is declared \<open>nullable=False\<close>, so that a commit with a
  \<open>None\<close> among the values raises \<open>IntegrityError\<close>.  The timestamps
  \<open>created_at\<close> and \<open>updated_at\<close> are set by the database and are left out.  The
  table is the list of its rows.
\<close>

record land_data =
  district_name :: "string option"
  district_code :: "string option"
  tehsil_name :: "string option"
  tehsil_code :: "string option"
  villege_name :: "string option"
  villege_code :: "string option"
  jamabandi_year :: "string option"
  khewat_no_col :: "string option"
  khatoni_no_col :: "string option"
  khasra_code :: "string option"
  khasra_no :: "string option"
  nakal_villege :: "string option"
  nakal_hadbast :: "string option"
  nakal_tehsil :: "string option"
  nakal_district :: "string option"
  nakal_year :: "string option"

record land_record =
  id_col :: nat
  cols :: land_data

type_synonym table = "land_record list"

definition not_null :: "land_data \<Rightarrow> bool" where
  "not_null d =
     (district_name d \<noteq> None \<and> district_code d \<noteq> None \<and> tehsil_name d \<noteq> None \<and>
      tehsil_code d \<noteq> None \<and> villege_name d \<noteq> None \<and> villege_code d \<noteq> None \<and>
      jamabandi_year d \<noteq> None \<and> khewat_no_col d \<noteq> None \<and> khatoni_no_col d \<noteq> None \<and>
      khasra_code d \<noteq> None \<and> khasra_no d \<noteq> None \<and> nakal_villege d \<noteq> None \<and>
      nakal_hadbast d \<noteq> None \<and> nakal_tehsil d \<noteq> None \<and> nakal_district d \<noteq> None \<and>
      nakal_year d \<noteq> None)"

definition matches :: "string \<Rightarrow> string \<Rightarrow> string \<Rightarrow> string \<Rightarrow> land_record \<Rightarrow> bool" where
  "matches dn tn vn kn r =
     (district_name (cols r) = Some dn \<and> tehsil_name (cols r) = Some tn \<and>
      villege_name (cols r) = Some vn \<and> khasra_no (cols r) = Some kn)"

definition search_records_by_input_data ::
  "table \<Rightarrow> string \<Rightarrow> string \<Rightarrow> string \<Rightarrow> string \<Rightarrow> land_record list" where
  "search_records_by_input_data db dn tn vn kn = filter (matches dn tn vn kn) db"

text \<open>The row that \<open>filter_by(id=record_id).first()\<close> finds gets every key of \<open>data\<close>.\<close>

fun set_cols :: "nat \<Rightarrow> land_data \<Rightarrow> table \<Rightarrow> table" where
  "set_cols i data [] = []"
| "set_cols i data (r # rs) =
     (if id_col r = i then r\<lparr>cols := data\<rparr> # rs else r # set_cols i data rs)"

definition update_record :: "table \<Rightarrow> nat \<Rightarrow> land_data \<Rightarrow> (exn + land_record option) \<times> table" where
  "update_record db record_id data =
     (case find (\<lambda>r. id_col r = record_id) db of
        Some record \<Rightarrow>
          if not_null data then (Inr (Some (record\<lparr>cols := data\<rparr>)), set_cols record_id data db)
          else (Inl IntegrityError, db)
      | None \<Rightarrow> (Inr None, db))"

text \<open>The key of a new row: one more than the largest key in the table.\<close>

definition next_id :: "table \<Rightarrow> nat" where
  "next_id db = Suc (fold max (map id_col db) 0)"

definition create_record_by_checking_record ::
  "table \<Rightarrow> string \<Rightarrow> string \<Rightarrow> string \<Rightarrow> string \<Rightarrow> land_data \<Rightarrow> bool \<Rightarrow>
   (exn + land_record option) \<times> table" where
  "create_record_by_checking_record db dn tn vn kn data force_refresh =
     (case search_records_by_input_data db dn tn vn kn of
        nakal_data # _ \<Rightarrow>
          if \<not> force_refresh then (Inr (Some nakal_data), db)
          else update_record db (id_col nakal_data) data
      | [] \<Rightarrow>
          if not_null data
          then (Inr (Some \<lparr>id_col = next_id db, cols = data\<rparr>),
                db @ [\<lparr>id_col = next_id db, cols = data\<rparr>])
          else (Inl IntegrityError, db))"

section \<open>The main program\<close>

text \<open>
  The block under \<open>__main__\<close>, from the parsed arguments on: the look-up in the table,
  the extraction when nothing is stored or a refresh is forced, and the write to the
  table.  The result is the value of \<open>nakal_data\<close> that the program prints last.
\<close>

definition data_of_output :: "output_dict \<Rightarrow> land_data" where
  "data_of_output nakal_data =
     \<lparr>district_name = Some (out_district_name nakal_data),
      district_code = out_district_code nakal_data,
      tehsil_name = Some (out_tehsil_name nakal_data),
      tehsil_code = out_tehsil_code nakal_data,
      villege_name = Some (out_villege_name nakal_data),
      villege_code = out_villege_code nakal_data,
      jamabandi_year = Some (out_jamabandi_year nakal_data),
      khewat_no_col = out_khewat_no nakal_data,
      khatoni_no_col = out_khatoni_no nakal_data,
      khasra_code = out_khasra_code nakal_data,
      khasra_no = Some (out_khasra_no nakal_data),
      nakal_villege = villege (out_inner_details nakal_data),
      nakal_hadbast = hadbast_no (out_inner_details nakal_data),
      nakal_tehsil = tehsil (out_inner_details nakal_data),
      nakal_district = district (out_inner_details nakal_data),
      nakal_year = year (out_inner_details nakal_data)\<rparr>"

definition html_path :: "string \<Rightarrow> string \<Rightarrow> string \<Rightarrow> string \<Rightarrow> string" where
  "html_path dn tn vn kn =
     ''nakal_html_data/'' @ dn @ ''_'' @ tn @ ''_'' @ vn @ ''_'' @
     map (\<lambda>c. if c = CHR ''/'' then CHR ''-'' else c) kn @ ''.html''"

text \<open>What \<open>nakal_data\<close> holds when the program prints it at the end.\<close>

datatype nakal_value =
    Records "land_record list"
  | Stored "land_record option"
  | Text string

definition extraction_started :: print_item where
  "extraction_started =
     Line ''>>>>>>>>>>>>>>>>>>>>>>>>> Data extraction started... <<<<<<<<<<<<<<<<<<''"

definition main ::
  "string \<Rightarrow> string \<Rightarrow> string \<Rightarrow> string \<Rightarrow> bool \<Rightarrow> table \<Rightarrow> world \<Rightarrow>
   (exn + nakal_value) \<times> table \<times> world" where
  "main inp_district_name inp_sub_district_name inp_villege_name inp_khasra_no force_refresh db w =
     (let nakal_data = search_records_by_input_data db
                         inp_district_name inp_sub_district_name inp_villege_name inp_khasra_no
      in if nakal_data = [] \<or> force_refresh then
           (case extract_data inp_district_name inp_sub_district_name inp_villege_name
                   inp_khasra_no
                   (Some (html_path inp_district_name inp_sub_district_name inp_villege_name
                            inp_khasra_no))
                   (emit (Printed extraction_started) w) of
              (Inl e, w1) \<Rightarrow> (Inl e, db, w1)
            | (Inr (Message m), w1) \<Rightarrow> (Inr (Text m), db, w1)
            | (Inr (Output out), w1) \<Rightarrow>
                (case create_record_by_checking_record db
                        inp_district_name inp_sub_district_name inp_villege_name inp_khasra_no
                        (data_of_output out) force_refresh of
                   (Inl e, db1) \<Rightarrow> (Inl e, db1, w1)
                 | (Inr r, db1) \<Rightarrow> (Inr (Stored r), db1, w1)))
         else (Inr (Records nakal_data), db, w))"

section \<open>Notions used in the statements\<close>

text \<open>The requests and the sleeps recorded in a trace, in order.\<close>

fun requests_of :: "event list \<Rightarrow> request list" where
  "requests_of [] = []"
| "requests_of (Sent r # evs) = r # requests_of evs"
| "requests_of (_ # evs) = requests_of evs"

fun sleeps_of :: "event list \<Rightarrow> nat list" where
  "sleeps_of [] = []"
| "sleeps_of (Slept d # evs) = d # sleeps_of evs"
| "sleeps_of (_ # evs) = sleeps_of evs"

fun printed_of :: "event list \<Rightarrow> print_item list" where
  "printed_of [] = []"
| "printed_of (Printed item # evs) = item # printed_of evs"
| "printed_of (_ # evs) = printed_of evs"

text \<open>A page that passes the validation of a POST step, and one that passes that of the first GET.\<close>

definition valid_tokens :: "page \<Rightarrow> bool" where
  "valid_tokens p = (\<not> falsy (input_VIEWSTATE p) \<and> \<not> falsy (input_EVENTVALIDATION p))"

definition valid_initial :: "page \<Rightarrow> bool" where
  "valid_initial p =
     (\<not> falsy (input_VIEWSTATE p) \<and> \<not> falsy (input_VIEWSTATEGENERATOR p) \<and>
      \<not> falsy (input_EVENTVALIDATION p))"

text \<open>The session object after a successful first GET, and after a successful POST step.\<close>

definition initial_tokens :: "page \<Rightarrow> jamabandi" where
  "initial_tokens p =
     \<lparr>viewstate = input_VIEWSTATE p, event_arg = input_EVENTARGUMENT p,
      event_validation = input_EVENTVALIDATION p,
      viewstate_generator = input_VIEWSTATEGENERATOR p\<rparr>"

definition refreshed :: "jamabandi \<Rightarrow> page \<Rightarrow> jamabandi" where
  "refreshed j p = j\<lparr>viewstate := input_VIEWSTATE p, event_validation := input_EVENTVALIDATION p\<rparr>"

text \<open>The world after a request that the server answered, with the replies that remain.\<close>

definition answered :: "request \<Rightarrow> reply list \<Rightarrow> world \<Rightarrow> world" where
  "answered req rest w = w\<lparr>script := rest, trace := trace w @ [Sent req]\<rparr>"

text \<open>The destination, when there is one, can be written.\<close>

definition writable :: "string option \<Rightarrow> world \<Rightarrow> bool" where
  "writable dest w = (case dest of None \<Rightarrow> True | Some path \<Rightarrow> path \<notin> set (unwritable w))"

text \<open>The candidate ids and the confirmation fields that \<open>get_nakals\<close> computes from the rows.\<close>

definition nakals_of_rows :: "table_row list \<Rightarrow> string list" where
  "nakals_of_rows rows = map (\<lambda>r. nakal_id_of_href (the (href r))) rows"

definition detail_of_rows :: "table_row list \<Rightarrow> nakal_detail" where
  "detail_of_rows rows = \<lparr>khewat_no = td2 (last rows), khatoni_no = td3 (last rows)\<rparr>"

text \<open>
  The nine requests of a run in which every step succeeds at its first attempt, given the
  pages that answered the first seven and the codes in use.
\<close>

definition clean_run_requests ::
  "page list \<Rightarrow> string option \<Rightarrow> string option \<Rightarrow> string option \<Rightarrow> string \<Rightarrow> string option \<Rightarrow>
   string \<Rightarrow> request list" where
  "clean_run_requests ps di ti vi y ki n =
     (let j0 = initial_tokens (ps ! 0); j1 = refreshed j0 (ps ! 1); j2 = refreshed j1 (ps ! 2);
          j3 = refreshed j2 (ps ! 3); j4 = refreshed j3 (ps ! 4); j5 = refreshed j4 (ps ! 5);
          j6 = refreshed j5 (ps ! 6)
      in [GET jamabandi_uri (Some request_timeout),
          POST jamabandi_uri (get_districts_data j0) (Some request_timeout),
          POST jamabandi_uri (get_sub_districts_data j1 di) None,
          POST jamabandi_uri (get_villeges_data j2 di ti) None,
          POST jamabandi_uri (get_years_data j3 di ti vi) None,
          POST jamabandi_uri (get_khasras_data j4 di ti vi y) None,
          POST jamabandi_uri (get_nakals_data j5 di ti vi y ki) None,
          POST jamabandi_uri (select_nakals_data j6 di ti vi y ki n) None,
          GET nakal_khewat_uri None])"

definition progress_lines :: "string list" where
  "progress_lines =
     [''Fetching jamabandi page.'', ''Getting districts.'', ''Getting sub-districts.'',
      ''Getting villeges.'', ''Getting years.'', ''Getting khasras.'', ''Getting nakals.'',
      ''Selecing nakal.'', ''Getting nakal html.'']"

definition clean_run_trace :: "request list \<Rightarrow> string option \<Rightarrow> event list" where
  "clean_run_trace reqs dest =
     concat (map2 (\<lambda>l r. [Printed (Line l), Sent r]) progress_lines reqs) @
     (case dest of None \<Rightarrow> [] | Some path \<Rightarrow> [WroteText path])"

text \<open>What a request holds under a key of its form data; a GET has no form data.\<close>

fun field_of :: "string \<Rightarrow> request \<Rightarrow> string option option" where
  "field_of k (GET url t) = None"
| "field_of k (POST url data t) = map_of data k"




text \<open>The number of requests sent so far.\<close>

definition sent_count :: "state \<Rightarrow> nat" where
  "sent_count s = length (requests_of (trace (snd s)))"

section \<open>Example data\<close>

definition blank_page :: page where
  "blank_page =
     \<lparr>input_VIEWSTATE = None, input_EVENTARGUMENT = None, input_EVENTVALIDATION = None,
      input_VIEWSTATEGENERATOR = None, select_District = [], select_Tehsil = [],
      select_Village = [], select_Year = [], select_Khasra = [], GridView_rows = [],
      lblvill = None, lblhad = None, lblteh = None, lbldis = None, lblyer = None\<rparr>"

definition form_page :: "string \<Rightarrow> string \<Rightarrow> page" where
  "form_page vs ev = blank_page\<lparr>input_VIEWSTATE := Some vs, input_EVENTVALIDATION := Some ev\<rparr>"

definition home_page :: page where
  "home_page = (form_page ''VS0'' ''EV0'')
     \<lparr>input_EVENTARGUMENT := Some [], input_VIEWSTATEGENERATOR := Some ''VG0''\<rparr>"

definition district_page :: page where
  "district_page = (form_page ''VS1'' ''EV1'')
     \<lparr>select_District := [(Some ''DistrictA'', Some ''01''), (Some ''DistrictB'', Some ''02'')]\<rparr>"

definition tehsil_page :: page where
  "tehsil_page = (form_page ''VS2'' ''EV2'')
     \<lparr>select_Tehsil := [(Some ''TehsilA'', Some ''001''), (Some ''TehsilB'', Some ''002'')]\<rparr>"

definition village_page :: page where
  "village_page = (form_page ''VS3'' ''EV3'')
     \<lparr>select_Village := [(Some ''VillageA'', Some ''0284'')]\<rparr>"

definition year_page :: page where
  "year_page = (form_page ''VS4'' ''EV4'')\<lparr>select_Year := [''2022-2023'']\<rparr>"

definition khasra_page :: page where
  "khasra_page = (form_page ''VS5'' ''EV5'')
     \<lparr>select_Khasra := [(Some ''5'', Some ''5''), (Some ''6'', Some ''6'')]\<rparr>"

definition nakal_page :: page where
  "nakal_page = (form_page ''VS6'' ''EV6'')
     \<lparr>GridView_rows :=
        [\<lparr>href = Some ''javascript:__doPostBack('ctl00$ContentPlaceHolder1$GridView1','Select$0')'',
          td2 = Some ''3'', td3 = Some ''9''\<rparr>]\<rparr>"

definition selected_page :: page where
  "selected_page = form_page ''VS7'' ''EV7''"

definition document_page :: page where
  "document_page = blank_page
     \<lparr>lblvill := Some ''VillageA'', lblhad := Some ''50'', lblteh := Some ''TehsilA'',
      lbldis := Some ''DistrictA'', lblyer := Some ''2022-2023''\<rparr>"

definition canned_responses :: "reply list" where
  "canned_responses =
     [Page home_page, Page district_page, Page tehsil_page, Page village_page, Page year_page,
      Page khasra_page, Page nakal_page, Page selected_page, Page document_page]"

text \<open>The same replies with a document that has no \<open>lblhad\<close> span.\<close>

definition document_page_without_hadbast :: page where
  "document_page_without_hadbast = document_page\<lparr>lblhad := None\<rparr>"

definition responses_without_hadbast :: "reply list" where
  "responses_without_hadbast =
     [Page home_page, Page district_page, Page tehsil_page, Page village_page, Page year_page,
      Page khasra_page, Page nakal_page, Page selected_page, Page document_page_without_hadbast]"

definition fresh_world :: "reply list \<Rightarrow> world" where
  "fresh_world replies = \<lparr>script = replies, trace = [], unwritable = []\<rparr>"

text \<open>A table with three candidate rows, and the run that meets it.\<close>

definition three_rows_page :: page where
  "three_rows_page = (form_page ''VS6'' ''EV6'')
     \<lparr>GridView_rows :=
        [\<lparr>href = Some ''javascript:__doPostBack('ctl00$ContentPlaceHolder1$GridView1','Select$0')'',
          td2 = Some ''3'', td3 = Some ''9''\<rparr>,
         \<lparr>href = Some ''javascript:__doPostBack('ctl00$ContentPlaceHolder1$GridView1','Select$1')'',
          td2 = Some ''4'', td3 = Some ''11''\<rparr>,
         \<lparr>href = Some ''javascript:__doPostBack('ctl00$ContentPlaceHolder1$GridView1','Select$2')'',
          td2 = Some ''7'', td3 = Some ''15''\<rparr>]\<rparr>"

definition two_years_page :: page where
  "two_years_page = (form_page ''VS4'' ''EV4'')\<lparr>select_Year := [''2022-2023'', ''2017-2018'']\<rparr>"

definition three_rows_responses :: "reply list" where
  "three_rows_responses =
     [Page home_page, Page district_page, Page tehsil_page, Page village_page, Page two_years_page,
      Page khasra_page, Page three_rows_page, Page selected_page, Page document_page]"

text \<open>The same run when the first request of \<open>get_nakals\<close> finds the server unreachable.\<close>

definition retried_responses :: "reply list" where
  "retried_responses =
     [Page home_page, Page district_page, Page tehsil_page, Page village_page, Page two_years_page,
      Page khasra_page, Unreachable, Page three_rows_page, Page selected_page,
      Page document_page]"

text \<open>A table without rows, sent three times.\<close>

definition no_rows_page :: page where
  "no_rows_page = form_page ''VS6'' ''EV6''"

definition no_rows_responses :: "reply list" where
  "no_rows_responses =
     [Page home_page, Page district_page, Page tehsil_page, Page village_page, Page year_page,
      Page khasra_page, Page no_rows_page, Page no_rows_page, Page no_rows_page]"

text \<open>A first page without the \<open>__EVENTARGUMENT\<close> input, and one without \<open>__VIEWSTATE\<close>.\<close>

definition home_page_without_argument :: page where
  "home_page_without_argument = (form_page ''VS0'' ''EV0'')\<lparr>input_VIEWSTATEGENERATOR := Some ''VG0''\<rparr>"

definition responses_without_argument :: "reply list" where
  "responses_without_argument =
     [Page home_page_without_argument, Page district_page, Page tehsil_page, Page village_page,
      Page year_page, Page khasra_page, Page nakal_page, Page selected_page, Page document_page]"

definition home_page_without_viewstate :: page where
  "home_page_without_viewstate = blank_page
     \<lparr>input_EVENTARGUMENT := Some ''EA'', input_EVENTVALIDATION := Some ''EV'',
      input_VIEWSTATEGENERATOR := Some ''VG''\<rparr>"

text \<open>A stored record of the example run, and a table that holds it among others.\<close>

definition stored_data :: land_data where
  "stored_data =
     \<lparr>district_name = Some ''DistrictA'', district_code = Some ''01'',
      tehsil_name = Some ''TehsilA'', tehsil_code = Some ''001'',
      villege_name = Some ''VillageA'', villege_code = Some ''0284'',
      jamabandi_year = Some ''2017-2018'', khewat_no_col = Some ''2'',
      khatoni_no_col = Some ''8'', khasra_code = Some ''6'', khasra_no = Some ''6'',
      nakal_villege = Some ''VillageA'', nakal_hadbast = Some ''50'',
      nakal_tehsil = Some ''TehsilA'', nakal_district = Some ''DistrictA'',
      nakal_year = Some ''2017-2018''\<rparr>"

definition example_table :: table where
  "example_table =
     [\<lparr>id_col = 1, cols = stored_data\<lparr>khasra_code := Some ''5'', khasra_no := Some ''5''\<rparr>\<rparr>,
      \<lparr>id_col = 2, cols = stored_data\<rparr>]"

section \<open>Basic facts\<close>

lemma requests_of_append [simp]: "requests_of (xs @ ys) = requests_of xs @ requests_of ys"
  by (induction xs rule: requests_of.induct) simp_all

lemma sleeps_of_append [simp]: "sleeps_of (xs @ ys) = sleeps_of xs @ sleeps_of ys"
  by (induction xs rule: sleeps_of.induct) simp_all

lemma printed_of_append [simp]: "printed_of (xs @ ys) = printed_of xs @ printed_of ys"
  by (induction xs rule: printed_of.induct) simp_all

lemma script_emit [simp]: "script (emit ev w) = script w"
  by (simp add: emit_def)

lemma trace_emit [simp]: "trace (emit ev w) = trace w @ [ev]"
  by (simp add: emit_def)

lemma script_answered [simp]: "script (answered req rest w) = rest"
  by (simp add: answered_def)

lemma unwritable_emit [simp]: "unwritable (emit ev w) = unwritable w"
  by (simp add: emit_def)

lemma unwritable_answered [simp]: "unwritable (answered req rest w) = unwritable w"
  by (simp add: answered_def)

lemma writable_emit [simp]: "writable dest (emit ev w) = writable dest w"
  by (simp add: writable_def split: option.splits)

lemma writable_answered [simp]: "writable dest (answered req rest w) = writable dest w"
  by (simp add: writable_def split: option.splits)

lemma writable_updates [simp]:
  "writable dest (w\<lparr>script := replies\<rparr>) = writable dest w"
  "writable dest (w\<lparr>trace := events\<rparr>) = writable dest w"
  by (simp_all add: writable_def split: option.splits)

lemma writable_None [simp]: "writable None w"
  by (simp add: writable_def)

lemma trace_answered [simp]: "trace (answered req rest w) = trace w @ [Sent req]"
  by (simp add: answered_def)

lemma say_pair [simp]: "say item (j, w) = (j, emit (Printed item) w)"
  by (simp add: say_def)

lemma time_sleep_pair [simp]: "time_sleep d (j, w) = (j, emit (Slept d) w)"
  by (simp add: time_sleep_def)

lemma send_page:
  "script w = Page p # rest \<Longrightarrow> send req w = (Inr p, answered req rest w)"
  by (simp add: send_def emit_def answered_def)

subsection \<open>Dictionaries\<close>

lemma dict_setitem_not_Nil [simp]: "dict_setitem d k v \<noteq> []"
  by (cases d) auto

lemma foldl_setitem_not_Nil:
  "d \<noteq> [] \<Longrightarrow> foldl (\<lambda>d (k, v). dict_setitem d k v) d items \<noteq> []"
  by (induction items arbitrary: d) (auto split: prod.splits)

lemma dict_comprehension_Nil [simp]: "dict_comprehension items = [] \<longleftrightarrow> items = []"
proof (cases items)
  case Nil
  then show ?thesis by (simp add: dict_comprehension_def)
next
  case (Cons a list)
  then show ?thesis
    by (cases a) (simp add: dict_comprehension_def foldl_setitem_not_Nil)
qed

lemma dict_getitem_Some_not_Nil: "dict_getitem d k = Some v \<Longrightarrow> d \<noteq> []"
  by (auto simp: dict_getitem_def)

lemma dict_getitem_contains: "dict_getitem d k = Some v \<Longrightarrow> dict_contains d k"
  by (simp add: dict_getitem_def dict_contains_def)

lemma dict_getitem_subscript: "dict_getitem d k = Some v \<Longrightarrow> dict_subscript d k = Inr v"
  by (simp add: dict_subscript_def)

subsection \<open>The retry loop, one iteration at a time\<close>

lemma wrapper_retry:
  "attempt < retries \<Longrightarrow> func s = (Inl e, s1) \<Longrightarrow> allowed e \<Longrightarrow>
   wrapper retries delay allowed func attempt err s =
   wrapper retries delay allowed func (Suc attempt) (Some e)
     (time_sleep delay (say (ErrorRetrying e (Suc attempt) retries) s1))"
  by (subst wrapper.simps) simp

lemma wrapper_return:
  "attempt < retries \<Longrightarrow> func s = (Inr v, s1) \<Longrightarrow>
   wrapper retries delay allowed func attempt err s = (Inr v, s1)"
  by (subst wrapper.simps) simp

lemma wrapper_exhausted:
  "\<not> attempt < retries \<Longrightarrow>
   wrapper retries delay allowed func attempt err s =
   (Inl (SystemExit exit_message),
    say (Line ''All retries failed. Here's the traceback:'') (say (TracebackText err) s))"
  by (subst wrapper.simps) simp

lemma retry_first_try:
  "func s = (Inr v, s1) \<Longrightarrow> retry_on_exception 3 5 allowed func s = (Inr v, s1)"
  unfolding retry_on_exception_def by (rule wrapper_return) simp_all

lemma retry_all_three_fail:
  assumes "func s0 = (Inl e1, s1)" and "allowed e1"
    and "func (time_sleep 5 (say (ErrorRetrying e1 1 3) s1)) = (Inl e2, s2)" and "allowed e2"
    and "func (time_sleep 5 (say (ErrorRetrying e2 2 3) s2)) = (Inl e3, s3)" and "allowed e3"
  shows "retry_on_exception 3 5 allowed func s0 =
         (Inl (SystemExit exit_message),
          say (Line ''All retries failed. Here's the traceback:'')
            (say (TracebackText (Some e3)) (time_sleep 5 (say (ErrorRetrying e3 3 3) s3))))"
proof -
  have a1: "wrapper 3 5 allowed func 0 None s0 =
            wrapper 3 5 allowed func 1 (Some e1) (time_sleep 5 (say (ErrorRetrying e1 1 3) s1))"
    using wrapper_retry [of 0 3 func s0 e1 s1 allowed 5 None] assms(1,2) by simp
  have a2: "wrapper 3 5 allowed func 1 (Some e1) (time_sleep 5 (say (ErrorRetrying e1 1 3) s1)) =
            wrapper 3 5 allowed func 2 (Some e2) (time_sleep 5 (say (ErrorRetrying e2 2 3) s2))"
    using wrapper_retry [of 1 3 func _ e2 s2 allowed 5 "Some e1"] assms(3,4)
    by (simp add: numeral_2_eq_2)
  have a3: "wrapper 3 5 allowed func 2 (Some e2) (time_sleep 5 (say (ErrorRetrying e2 2 3) s2)) =
            wrapper 3 5 allowed func 3 (Some e3) (time_sleep 5 (say (ErrorRetrying e3 3 3) s3))"
    using wrapper_retry [of 2 3 func _ e3 s3 allowed 5 "Some e2"] assms(5,6)
    by (simp add: numeral_3_eq_3 numeral_2_eq_2)
  show ?thesis
    unfolding retry_on_exception_def a1 a2 a3 by (rule wrapper_exhausted) simp
qed

subsection \<open>A step that the server answers with a valid page succeeds at once\<close>

lemma get_jamabandi_page_ok:
  "script w = Page p # rest \<Longrightarrow> valid_initial p \<Longrightarrow>
   get_jamabandi_page (j, w) =
     (Inr (), (initial_tokens p, answered (GET jamabandi_uri (Some request_timeout)) rest w))"
  unfolding get_jamabandi_page_def
  by (rule retry_first_try)
     (simp add: get_jamabandi_page_body_def send_page valid_initial_def initial_tokens_def)

lemma post_ok:
  "script w = Page p # rest \<Longrightarrow> valid_tokens p \<Longrightarrow>
   post_and_update_state data t (j, w) =
     (Inr p, (refreshed j p, answered (POST jamabandi_uri data t) rest w))"
  by (simp add: post_and_update_state_def send_page valid_tokens_def refreshed_def)

lemma get_districts_ok:
  "script w = Page p # rest \<Longrightarrow> valid_tokens p \<Longrightarrow> select_District p \<noteq> [] \<Longrightarrow>
   get_districts (j, w) =
     (Inr (dict_comprehension (select_District p)),
      (refreshed j p,
       answered (POST jamabandi_uri (get_districts_data j) (Some request_timeout)) rest w))"
  unfolding get_districts_def
  by (rule retry_first_try) (simp add: get_districts_body_def post_ok options_or_raise_def)

lemma get_sub_districts_ok:
  "script w = Page p # rest \<Longrightarrow> valid_tokens p \<Longrightarrow> select_Tehsil p \<noteq> [] \<Longrightarrow>
   get_sub_districts di (j, w) =
     (Inr (dict_comprehension (select_Tehsil p)),
      (refreshed j p, answered (POST jamabandi_uri (get_sub_districts_data j di) None) rest w))"
  unfolding get_sub_districts_def
  by (rule retry_first_try) (simp add: get_sub_districts_body_def post_ok options_or_raise_def)

lemma get_villeges_ok:
  "script w = Page p # rest \<Longrightarrow> valid_tokens p \<Longrightarrow> select_Village p \<noteq> [] \<Longrightarrow>
   get_villeges di ti (j, w) =
     (Inr (dict_comprehension (select_Village p)),
      (refreshed j p, answered (POST jamabandi_uri (get_villeges_data j di ti) None) rest w))"
  unfolding get_villeges_def
  by (rule retry_first_try) (simp add: get_villeges_body_def post_ok options_or_raise_def)

lemma get_years_ok:
  "script w = Page p # rest \<Longrightarrow> valid_tokens p \<Longrightarrow> select_Year p \<noteq> [] \<Longrightarrow>
   get_years di ti vi (j, w) =
     (Inr (select_Year p),
      (refreshed j p, answered (POST jamabandi_uri (get_years_data j di ti vi) None) rest w))"
  unfolding get_years_def
  by (rule retry_first_try) (simp add: get_years_body_def post_ok)

lemma get_khasras_ok:
  "script w = Page p # rest \<Longrightarrow> valid_tokens p \<Longrightarrow> select_Khasra p \<noteq> [] \<Longrightarrow>
   get_khasras di ti vi y (j, w) =
     (Inr (dict_comprehension (select_Khasra p)),
      (refreshed j p, answered (POST jamabandi_uri (get_khasras_data j di ti vi y) None) rest w))"
  unfolding get_khasras_def
  by (rule retry_first_try) (simp add: get_khasras_body_def post_ok options_or_raise_def)

lemma nakal_rows_loop_links:
  "\<forall>r \<in> set rows. href r \<noteq> None \<Longrightarrow>
   nakal_rows_loop rows nakals detail =
     Inr (nakals @ nakals_of_rows rows, if rows = [] then detail else detail_of_rows rows)"
proof (induction rows arbitrary: nakals detail)
  case Nil
  then show ?case by (simp add: nakals_of_rows_def)
next
  case (Cons r rows)
  then obtain h where h: "href r = Some h" by auto
  have "\<forall>r \<in> set rows. href r \<noteq> None" using Cons.prems by simp
  from Cons.IH [OF this] h show ?case
    by (simp add: nakals_of_rows_def detail_of_rows_def)
qed

lemma get_nakals_body_ok:
  "script w = Page p # rest \<Longrightarrow> valid_tokens p \<Longrightarrow> GridView_rows p \<noteq> [] \<Longrightarrow>
   \<forall>r \<in> set (GridView_rows p). href r \<noteq> None \<Longrightarrow>
   get_nakals_body di ti vi y ki (j, w) =
     (Inr (nakals_of_rows (GridView_rows p), detail_of_rows (GridView_rows p)),
      (refreshed j p, answered (POST jamabandi_uri (get_nakals_data j di ti vi y ki) None) rest w))"
  by (simp add: get_nakals_body_def post_ok nakal_rows_loop_links nakals_of_rows_def)

lemma get_nakals_ok:
  "script w = Page p # rest \<Longrightarrow> valid_tokens p \<Longrightarrow> GridView_rows p \<noteq> [] \<Longrightarrow>
   \<forall>r \<in> set (GridView_rows p). href r \<noteq> None \<Longrightarrow>
   get_nakals di ti vi y ki (j, w) =
     (Inr (nakals_of_rows (GridView_rows p), detail_of_rows (GridView_rows p)),
      (refreshed j p, answered (POST jamabandi_uri (get_nakals_data j di ti vi y ki) None) rest w))"
  unfolding get_nakals_def
  by (rule retry_first_try) (rule get_nakals_body_ok)

lemma select_nakals_ok:
  "script w = Page p # rest \<Longrightarrow> valid_tokens p \<Longrightarrow>
   select_nakals di ti vi y ki n (j, w) =
     (Inr (),
      (refreshed j p, answered (POST jamabandi_uri (select_nakals_data j di ti vi y ki n) None) rest w))"
  unfolding select_nakals_def
  by (rule retry_first_try) (simp add: select_nakals_body_def post_ok)

lemma get_nakal_html_ok:
  "script w = Page p # rest \<Longrightarrow> writable dest w \<Longrightarrow>
   get_nakal_html dest (j, w) =
     (Inr p,
      (j, case dest of None \<Rightarrow> answered (GET nakal_khewat_uri None) rest w
          | Some path \<Rightarrow> emit (WroteText path) (answered (GET nakal_khewat_uri None) rest w)))"
  unfolding get_nakal_html_def
  by (rule retry_first_try)
     (auto simp: get_nakal_html_body_def send_page writable_def split: option.splits)

subsection \<open>A run in which every step succeeds at its first attempt\<close>

lemma extract_data_clean_run:
  assumes "script w = Page p0 # Page p1 # Page p2 # Page p3 # Page p4 # Page p5 # Page p6 #
                      Page p7 # Page p8 # rest"
    and "valid_initial p0" and "valid_tokens p1" and "valid_tokens p2" and "valid_tokens p3"
    and "valid_tokens p4" and "valid_tokens p5" and "valid_tokens p6" and "valid_tokens p7"
    and "dict_getitem (dict_comprehension (select_District p1)) (Some dn) = Some di"
    and "dict_getitem (dict_comprehension (select_Tehsil p2)) (Some tn) = Some ti"
    and "dict_getitem (dict_comprehension (select_Village p3)) (Some vn) = Some vi"
    and "select_Year p4 = y # ys"
    and "dict_getitem (dict_comprehension (select_Khasra p5)) (Some kn) = Some ki"
    and "GridView_rows p6 \<noteq> []" and "\<forall>r \<in> set (GridView_rows p6). href r \<noteq> None"
    and "writable dest w"
  shows "extract_data dn tn vn kn dest w =
           (Inr (Output
             \<lparr>out_district_name = dn, out_district_code = di,
              out_tehsil_name = tn, out_tehsil_code = ti,
              out_villege_name = vn, out_villege_code = vi,
              out_jamabandi_year = y,
              out_khewat_no = td2 (last (GridView_rows p6)),
              out_khatoni_no = td3 (last (GridView_rows p6)),
              out_khasra_code = ki, out_khasra_no = kn,
              out_inner_details =
                \<lparr>villege = lblvill p8, hadbast_no = lblhad p8, tehsil = lblteh p8,
                 district = lbldis p8, year = lblyer p8\<rparr>\<rparr>),
            w\<lparr>script := rest,
              trace := trace w @
               clean_run_trace
                 (clean_run_requests [p0, p1, p2, p3, p4, p5, p6, p7] di ti vi y ki
                    (nakal_id_of_href (the (href (hd (GridView_rows p6))))))
                 dest\<rparr>)"
proof -
  have d1: "select_District p1 \<noteq> []" using assms(10) dict_getitem_Some_not_Nil by fastforce
  have d2: "select_Tehsil p2 \<noteq> []" using assms(11) dict_getitem_Some_not_Nil by fastforce
  have d3: "select_Village p3 \<noteq> []" using assms(12) dict_getitem_Some_not_Nil by fastforce
  have d5: "select_Khasra p5 \<noteq> []" using assms(14) dict_getitem_Some_not_Nil by fastforce
  obtain r rs where rows: "GridView_rows p6 = r # rs" using assms(15) by (cases "GridView_rows p6") auto
  note oks = get_jamabandi_page_ok get_districts_ok get_sub_districts_ok get_villeges_ok
    get_years_ok get_khasras_ok get_nakals_ok select_nakals_ok get_nakal_html_ok
  note facts = assms(1-9) d1 d2 d3 d5 assms(13) assms(15,16,17)
    assms(10,11,12,14) [THEN dict_getitem_contains] assms(10,11,12,14) [THEN dict_getitem_subscript]
  show ?thesis
    unfolding extract_data_def
    by (simp add: oks facts rows nakals_of_rows_def detail_of_rows_def clean_run_trace_def
        clean_run_requests_def progress_lines_def answered_def emit_def Let_def split: option.splits)
qed

subsection \<open>Every attempt of a step sends one request\<close>

lemma sent_count_say [simp]: "sent_count (say item s) = sent_count s"
  by (simp add: sent_count_def say_def)

lemma sent_count_emit_Printed [simp]:
  "sent_count (j, emit (Printed item) w) = sent_count (j, w)"
  by (simp add: sent_count_def)

lemma sent_count_time_sleep [simp]: "sent_count (time_sleep d s) = sent_count s"
  by (simp add: sent_count_def time_sleep_def)

lemma requests_of_send:
  "requests_of (trace (snd (send req w))) = requests_of (trace w) @ [req]"
  by (simp add: send_def Let_def split: list.splits reply.splits)

lemma requests_of_post:
  "requests_of (trace (snd (snd (post_and_update_state data t (j, w))))) =
   requests_of (trace w) @ [POST jamabandi_uri data t]"
  using requests_of_send [of "POST jamabandi_uri data t" w]
  by (auto simp: post_and_update_state_def split: prod.splits sum.splits)

lemma post_steps_send_one_request:
  "requests_of (trace (snd (snd (get_districts_body (j, w))))) =
     requests_of (trace w) @ [POST jamabandi_uri (get_districts_data j) (Some request_timeout)]"
  "requests_of (trace (snd (snd (get_sub_districts_body di (j, w))))) =
     requests_of (trace w) @ [POST jamabandi_uri (get_sub_districts_data j di) None]"
  "requests_of (trace (snd (snd (get_villeges_body di ti (j, w))))) =
     requests_of (trace w) @ [POST jamabandi_uri (get_villeges_data j di ti) None]"
  "requests_of (trace (snd (snd (get_years_body di ti vi (j, w))))) =
     requests_of (trace w) @ [POST jamabandi_uri (get_years_data j di ti vi) None]"
  "requests_of (trace (snd (snd (get_khasras_body di ti vi y (j, w))))) =
     requests_of (trace w) @ [POST jamabandi_uri (get_khasras_data j di ti vi y) None]"
  "requests_of (trace (snd (snd (get_nakals_body di ti vi y ki (j, w))))) =
     requests_of (trace w) @ [POST jamabandi_uri (get_nakals_data j di ti vi y ki) None]"
  "requests_of (trace (snd (snd (select_nakals_body di ti vi y ki n (j, w))))) =
     requests_of (trace w) @ [POST jamabandi_uri (select_nakals_data j di ti vi y ki n) None]"
proof -
  show "requests_of (trace (snd (snd (get_districts_body (j, w))))) =
     requests_of (trace w) @ [POST jamabandi_uri (get_districts_data j) (Some request_timeout)]"
    using requests_of_post [of "get_districts_data j" "Some request_timeout" j w]
    by (auto simp: get_districts_body_def options_or_raise_def Let_def split: prod.splits sum.splits)
  show "requests_of (trace (snd (snd (get_sub_districts_body di (j, w))))) =
     requests_of (trace w) @ [POST jamabandi_uri (get_sub_districts_data j di) None]"
    using requests_of_post [of "get_sub_districts_data j di" None j w]
    by (auto simp: get_sub_districts_body_def options_or_raise_def Let_def split: prod.splits sum.splits)
  show "requests_of (trace (snd (snd (get_villeges_body di ti (j, w))))) =
     requests_of (trace w) @ [POST jamabandi_uri (get_villeges_data j di ti) None]"
    using requests_of_post [of "get_villeges_data j di ti" None j w]
    by (auto simp: get_villeges_body_def options_or_raise_def Let_def split: prod.splits sum.splits)
  show "requests_of (trace (snd (snd (get_years_body di ti vi (j, w))))) =
     requests_of (trace w) @ [POST jamabandi_uri (get_years_data j di ti vi) None]"
    using requests_of_post [of "get_years_data j di ti vi" None j w]
    by (auto simp: get_years_body_def split: prod.splits sum.splits)
  show "requests_of (trace (snd (snd (get_khasras_body di ti vi y (j, w))))) =
     requests_of (trace w) @ [POST jamabandi_uri (get_khasras_data j di ti vi y) None]"
    using requests_of_post [of "get_khasras_data j di ti vi y" None j w]
    by (auto simp: get_khasras_body_def options_or_raise_def Let_def split: prod.splits sum.splits)
  show "requests_of (trace (snd (snd (get_nakals_body di ti vi y ki (j, w))))) =
     requests_of (trace w) @ [POST jamabandi_uri (get_nakals_data j di ti vi y ki) None]"
    using requests_of_post [of "get_nakals_data j di ti vi y ki" None j w]
    by (auto simp: get_nakals_body_def split: prod.splits sum.splits)
  show "requests_of (trace (snd (snd (select_nakals_body di ti vi y ki n (j, w))))) =
     requests_of (trace w) @ [POST jamabandi_uri (select_nakals_data j di ti vi y ki n) None]"
    using requests_of_post [of "select_nakals_data j di ti vi y ki n" None j w]
    by (auto simp: select_nakals_body_def split: prod.splits sum.splits)
qed

lemma get_steps_send_one_request:
  "requests_of (trace (snd (snd (get_jamabandi_page_body (j, w))))) =
     requests_of (trace w) @ [GET jamabandi_uri (Some request_timeout)]"
  "requests_of (trace (snd (snd (get_nakal_html_body dest (j, w))))) =
     requests_of (trace w) @ [GET nakal_khewat_uri None]"
proof -
  show "requests_of (trace (snd (snd (get_jamabandi_page_body (j, w))))) =
     requests_of (trace w) @ [GET jamabandi_uri (Some request_timeout)]"
    using requests_of_send [of "GET jamabandi_uri (Some request_timeout)" w]
    by (auto simp: get_jamabandi_page_body_def Let_def say_def split: prod.splits sum.splits)
  show "requests_of (trace (snd (snd (get_nakal_html_body dest (j, w))))) =
     requests_of (trace w) @ [GET nakal_khewat_uri None]"
    using requests_of_send [of "GET nakal_khewat_uri None" w]
    by (auto simp: get_nakal_html_body_def split: prod.splits sum.splits option.splits)
qed

lemma bodies_send:
  "sent_count (snd (get_jamabandi_page_body s)) = Suc (sent_count s)"
  "sent_count (snd (get_districts_body s)) = Suc (sent_count s)"
  "sent_count (snd (get_sub_districts_body di s)) = Suc (sent_count s)"
  "sent_count (snd (get_villeges_body di ti s)) = Suc (sent_count s)"
  "sent_count (snd (get_years_body di ti vi s)) = Suc (sent_count s)"
  "sent_count (snd (get_khasras_body di ti vi y s)) = Suc (sent_count s)"
  "sent_count (snd (get_nakals_body di ti vi y ki s)) = Suc (sent_count s)"
  "sent_count (snd (select_nakals_body di ti vi y ki n s)) = Suc (sent_count s)"
  "sent_count (snd (get_nakal_html_body dest s)) = Suc (sent_count s)"
  by (cases s; simp add: sent_count_def post_steps_send_one_request get_steps_send_one_request)+

lemma wrapper_sends:
  "(\<And>s. sent_count s < sent_count (snd (func s))) \<Longrightarrow>
   wrapper retries delay allowed func attempt err s = (Inr v, s') \<Longrightarrow>
   sent_count s < sent_count s'"
proof (induction retries delay allowed func attempt err s rule: wrapper.induct)
  case (1 retries delay allowed func attempt err s)
  note run = "1.prems"(2)
  show ?case
  proof (cases "attempt < retries")
    case False
    with run show ?thesis by (subst (asm) wrapper.simps) simp
  next
    case True
    obtain r s1 where f: "func s = (r, s1)" by (cases "func s")
    have g: "sent_count s < sent_count s1" using "1.prems"(1) [of s] f by simp
    show ?thesis
    proof (cases r)
      case (Inr x)
      with run True f g show ?thesis by (subst (asm) wrapper.simps) simp
    next
      case (Inl e)
      show ?thesis
      proof (cases "allowed e")
        case False
        with run True f Inl show ?thesis by (subst (asm) wrapper.simps) simp
      next
        case a: True
        from run True f Inl a
        have "wrapper retries delay allowed func (attempt + 1) (Some e)
                (time_sleep delay (say (ErrorRetrying e (attempt + 1) retries) s1)) = (Inr v, s')"
          by (subst (asm) wrapper.simps) simp
        from "1.IH" [OF True f [symmetric] Inl a "1.prems"(1) this] g show ?thesis by simp
      qed
    qed
  qed
qed

lemma steps_send:
  "get_jamabandi_page s = (Inr u, s') \<Longrightarrow> sent_count s < sent_count s'"
  "get_districts s = (Inr d, s') \<Longrightarrow> sent_count s < sent_count s'"
  "get_sub_districts di s = (Inr d, s') \<Longrightarrow> sent_count s < sent_count s'"
  "get_villeges di ti s = (Inr d, s') \<Longrightarrow> sent_count s < sent_count s'"
  "get_years di ti vi s = (Inr ys, s') \<Longrightarrow> sent_count s < sent_count s'"
  "get_khasras di ti vi y s = (Inr d, s') \<Longrightarrow> sent_count s < sent_count s'"
  "get_nakals di ti vi y ki s = (Inr nd, s') \<Longrightarrow> sent_count s < sent_count s'"
  "select_nakals di ti vi y ki n s = (Inr u, s') \<Longrightarrow> sent_count s < sent_count s'"
  "get_nakal_html dest s = (Inr p, s') \<Longrightarrow> sent_count s < sent_count s'"
  unfolding get_jamabandi_page_def get_districts_def get_sub_districts_def get_villeges_def
    get_years_def get_khasras_def get_nakals_def select_nakals_def get_nakal_html_def
    retry_on_exception_def
  by (erule wrapper_sends [rotated], simp add: bodies_send)+

subsection \<open>What a successful run has gone through\<close>

lemma extract_data_Output:
  assumes "extract_data dn tn vn kn dest w = (Inr (Output out), w')"
  obtains u s1 districts s2 di sub_districts s3 ti villeges s4 vi y ys s5 khasras s6 ki
    n ns detail s7 u' s8 nakal s9
  where "get_jamabandi_page (say (Line ''Fetching jamabandi page.'') (JamabandiDataExtractor_init, w)) = (Inr u, s1)"
    and "get_districts (say (Line ''Getting districts.'') s1) = (Inr districts, s2)"
    and "dict_subscript districts (Some dn) = Inr di"
    and "get_sub_districts di (say (Line ''Getting sub-districts.'') s2) = (Inr sub_districts, s3)"
    and "dict_subscript sub_districts (Some tn) = Inr ti"
    and "get_villeges di ti (say (Line ''Getting villeges.'') s3) = (Inr villeges, s4)"
    and "dict_subscript villeges (Some vn) = Inr vi"
    and "get_years di ti vi (say (Line ''Getting years.'') s4) = (Inr (y # ys), s5)"
    and "get_khasras di ti vi y (say (Line ''Getting khasras.'') s5) = (Inr khasras, s6)"
    and "dict_subscript khasras (Some kn) = Inr ki"
    and "get_nakals di ti vi y ki (say (Line ''Getting nakals.'') s6) = (Inr (n # ns, detail), s7)"
    and "select_nakals di ti vi y ki n (say (Line ''Selecing nakal.'') s7) = (Inr u', s8)"
    and "get_nakal_html dest (say (Line ''Getting nakal html.'') s8) = (Inr nakal, s9)"
    and "w' = snd s9"
    and "out = \<lparr>out_district_name = dn, out_district_code = di,
          out_tehsil_name = tn, out_tehsil_code = ti,
          out_villege_name = vn, out_villege_code = vi,
          out_jamabandi_year = y,
          out_khewat_no = khewat_no detail, out_khatoni_no = khatoni_no detail,
          out_khasra_code = ki, out_khasra_no = kn,
          out_inner_details =
            \<lparr>villege = lblvill nakal, hadbast_no = lblhad nakal, tehsil = lblteh nakal,
             district = lbldis nakal, year = lblyer nakal\<rparr>\<rparr>"
  using assms unfolding extract_data_def
  by (auto split: prod.splits sum.splits if_splits list.splits)

lemma extract_data_sends_nine:
  assumes "extract_data dn tn vn kn dest w = (Inr (Output out), w')"
  shows "length (requests_of (trace w)) + 9 \<le> length (requests_of (trace w'))"
  using assms
proof (rule extract_data_Output)
  fix u s1 districts s2 di sub_districts s3 ti villeges s4 vi y ys s5 khasras s6 ki
    n ns detail s7 u' s8 nakal s9
  assume "get_jamabandi_page (say (Line ''Fetching jamabandi page.'') (JamabandiDataExtractor_init, w)) = (Inr u, s1)"
    and "get_districts (say (Line ''Getting districts.'') s1) = (Inr districts, s2)"
    and "get_sub_districts di (say (Line ''Getting sub-districts.'') s2) = (Inr sub_districts, s3)"
    and "get_villeges di ti (say (Line ''Getting villeges.'') s3) = (Inr villeges, s4)"
    and "get_years di ti vi (say (Line ''Getting years.'') s4) = (Inr (y # ys), s5)"
    and "get_khasras di ti vi y (say (Line ''Getting khasras.'') s5) = (Inr khasras, s6)"
    and "get_nakals di ti vi y ki (say (Line ''Getting nakals.'') s6) = (Inr (n # ns, detail), s7)"
    and "select_nakals di ti vi y ki n (say (Line ''Selecing nakal.'') s7) = (Inr u', s8)"
    and "get_nakal_html dest (say (Line ''Getting nakal html.'') s8) = (Inr nakal, s9)"
    and w': "w' = snd s9"
  note steps = this(1-9)
  have "sent_count (JamabandiDataExtractor_init, w) < sent_count s1"
    using steps_send(1) [OF steps(1)] by simp
  moreover have "sent_count s1 < sent_count s2" using steps_send(2) [OF steps(2)] by simp
  moreover have "sent_count s2 < sent_count s3" using steps_send(3) [OF steps(3)] by simp
  moreover have "sent_count s3 < sent_count s4" using steps_send(4) [OF steps(4)] by simp
  moreover have "sent_count s4 < sent_count s5" using steps_send(5) [OF steps(5)] by simp
  moreover have "sent_count s5 < sent_count s6" using steps_send(6) [OF steps(6)] by simp
  moreover have "sent_count s6 < sent_count s7" using steps_send(7) [OF steps(7)] by simp
  moreover have "sent_count s7 < sent_count s8" using steps_send(8) [OF steps(8)] by simp
  moreover have "sent_count s8 < sent_count s9" using steps_send(9) [OF steps(9)] by simp
  ultimately show ?thesis
    unfolding w' by (simp add: sent_count_def)
qed

subsection \<open>The table\<close>

lemma length_set_cols [simp]: "length (set_cols i data db) = length db"
  by (induction db) auto

lemma map_id_set_cols [simp]: "map id_col (set_cols i data db) = map id_col db"
  by (induction db) auto

lemma filter_set_cols:
  assumes "distinct (map id_col db)" and "r \<in> set db" and "P r" and "P (r\<lparr>cols := data\<rparr>)"
  shows "length (filter P (set_cols (id_col r) data db)) = length (filter P db)"
  using assms
proof (induction db)
  case Nil
  then show ?case by simp
next
  case (Cons a db)
  show ?case
  proof (cases "id_col a = id_col r")
    case True
    with Cons.prems have "a = r" by (auto simp: image_iff)
    with Cons.prems show ?thesis by simp
  next
    case False
    with Cons show ?thesis by auto
  qed
qed

lemma find_by_id:
  "distinct (map id_col db) \<Longrightarrow> r \<in> set db \<Longrightarrow> find (\<lambda>x. id_col x = id_col r) db = Some r"
  by (induction db) (auto simp: image_iff)

lemma find_set_cols:
  "r \<in> set db \<Longrightarrow>
   find (\<lambda>x. id_col x = id_col r) (set_cols (id_col r) data db) =
     (case find (\<lambda>x. id_col x = id_col r) db of None \<Rightarrow> None | Some x \<Rightarrow> Some (x\<lparr>cols := data\<rparr>))"
  by (induction db) auto

lemma filter_others_set_cols:
  "filter (\<lambda>r. id_col r \<noteq> i) (set_cols i data db) = filter (\<lambda>r. id_col r \<noteq> i) db"
  by (induction db) auto

lemma search_first_in_table:
  assumes "search_records_by_input_data db dn tn vn kn = first # others"
  shows "first \<in> set db \<and> matches dn tn vn kn first"
proof -
  have "first \<in> set (filter (matches dn tn vn kn) db)"
    using assms by (simp add: search_records_by_input_data_def)
  then show ?thesis by simp
qed

subsection \<open>A table without rows\<close>

lemma get_nakals_body_no_rows:
  "script w = Page q # rest \<Longrightarrow> valid_tokens q \<Longrightarrow> GridView_rows q = [] \<Longrightarrow>
   get_nakals_body di ti vi y ki (j, w) =
     (Inl (FormFieldNotFoundException [''nakals'', ''nakal_detail'']),
      (refreshed j q, answered (POST jamabandi_uri (get_nakals_data j di ti vi y ki) None) rest w))"
  by (simp add: get_nakals_body_def post_ok)

lemma get_nakals_no_rows_thrice:
  assumes "script w = Page q1 # Page q2 # Page q3 # rest"
    and "valid_tokens q1" and "valid_tokens q2" and "valid_tokens q3"
    and "GridView_rows q1 = []" and "GridView_rows q2 = []" and "GridView_rows q3 = []"
  shows "get_nakals di ti vi y ki (j, w) =
     (Inl (SystemExit exit_message),
      (refreshed (refreshed (refreshed j q1) q2) q3,
       w\<lparr>script := rest,
         trace := trace w @
          [Sent (POST jamabandi_uri (get_nakals_data j di ti vi y ki) None),
           Printed (ErrorRetrying (FormFieldNotFoundException [''nakals'', ''nakal_detail'']) 1 3),
           Slept 5,
           Sent (POST jamabandi_uri (get_nakals_data (refreshed j q1) di ti vi y ki) None),
           Printed (ErrorRetrying (FormFieldNotFoundException [''nakals'', ''nakal_detail'']) 2 3),
           Slept 5,
           Sent (POST jamabandi_uri
                   (get_nakals_data (refreshed (refreshed j q1) q2) di ti vi y ki) None),
           Printed (ErrorRetrying (FormFieldNotFoundException [''nakals'', ''nakal_detail'']) 3 3),
           Slept 5,
           Printed (TracebackText
                      (Some (FormFieldNotFoundException [''nakals'', ''nakal_detail'']))),
           Printed (Line ''All retries failed. Here's the traceback:'')]\<rparr>))"
proof -
  let ?e = "FormFieldNotFoundException [''nakals'', ''nakal_detail'']"
  have a: "allowed_exceptions ?e" by (simp add: allowed_exceptions_def)
  let ?w1 = "answered (POST jamabandi_uri (get_nakals_data j di ti vi y ki) None)
               (Page q2 # Page q3 # rest) w"
  have h1: "get_nakals_body di ti vi y ki (j, w) = (Inl ?e, (refreshed j q1, ?w1))"
    using assms by (simp add: get_nakals_body_no_rows)
  let ?w2 = "answered (POST jamabandi_uri (get_nakals_data (refreshed j q1) di ti vi y ki) None)
               (Page q3 # rest) (emit (Slept 5) (emit (Printed (ErrorRetrying ?e 1 3)) ?w1))"
  have h2: "get_nakals_body di ti vi y ki
              (time_sleep 5 (say (ErrorRetrying ?e 1 3) (refreshed j q1, ?w1))) =
            (Inl ?e, (refreshed (refreshed j q1) q2, ?w2))"
    using assms by (simp add: get_nakals_body_no_rows)
  let ?w3 = "answered (POST jamabandi_uri
                         (get_nakals_data (refreshed (refreshed j q1) q2) di ti vi y ki) None)
               rest (emit (Slept 5) (emit (Printed (ErrorRetrying ?e 2 3)) ?w2))"
  have h3: "get_nakals_body di ti vi y ki
              (time_sleep 5 (say (ErrorRetrying ?e 2 3) (refreshed (refreshed j q1) q2, ?w2))) =
            (Inl ?e, (refreshed (refreshed (refreshed j q1) q2) q3, ?w3))"
    using assms by (simp add: get_nakals_body_no_rows)
  show ?thesis
    unfolding get_nakals_def
    using retry_all_three_fail [where func = "get_nakals_body di ti vi y ki"
            and allowed = allowed_exceptions, OF h1 a h2 a h3 a]
    by (simp add: answered_def emit_def)
qed

lemma no_candidates_run:
  assumes "script w = Page p0 # Page p1 # Page p2 # Page p3 # Page p4 # Page p5 #
                      Page q1 # Page q2 # Page q3 # rest"
    and "valid_initial p0" and "valid_tokens p1" and "valid_tokens p2" and "valid_tokens p3"
    and "valid_tokens p4" and "valid_tokens p5"
    and "valid_tokens q1" and "valid_tokens q2" and "valid_tokens q3"
    and "dict_getitem (dict_comprehension (select_District p1)) (Some dn) = Some di"
    and "dict_getitem (dict_comprehension (select_Tehsil p2)) (Some tn) = Some ti"
    and "dict_getitem (dict_comprehension (select_Village p3)) (Some vn) = Some vi"
    and "select_Year p4 = y # ys"
    and "dict_getitem (dict_comprehension (select_Khasra p5)) (Some kn) = Some ki"
    and "GridView_rows q1 = []" and "GridView_rows q2 = []" and "GridView_rows q3 = []"
  shows "fst (extract_data dn tn vn kn dest w) = Inl (SystemExit exit_message)"
    and "script (snd (extract_data dn tn vn kn dest w)) = rest"
    and "sleeps_of (trace (snd (extract_data dn tn vn kn dest w))) = sleeps_of (trace w) @ [5, 5, 5]"
    and "map (field_of ''__EVENTTARGET'')
           (drop (length (requests_of (trace w)))
              (requests_of (trace (snd (extract_data dn tn vn kn dest w))))) =
           [None,
            Some (Some ''ctl00$ContentPlaceHolder1$RdobtnKhasra''),
            Some (Some ''ctl00$ContentPlaceHolder1$ddldname''),
            Some (Some ''ctl00$ContentPlaceHolder1$ddltname''),
            Some (Some ''ctl00$ContentPlaceHolder1$ddlvname''),
            Some (Some ''ctl00$ContentPlaceHolder1$ddlPeriod''),
            Some (Some ''ctl00$ContentPlaceHolder1$ddlkhasra''),
            Some (Some ''ctl00$ContentPlaceHolder1$ddlkhasra''),
            Some (Some ''ctl00$ContentPlaceHolder1$ddlkhasra'')]"
    and "printed_of (drop (length (trace w)) (trace (snd (extract_data dn tn vn kn dest w)))) =
           map Line (take 7 progress_lines) @
           [ErrorRetrying (FormFieldNotFoundException [''nakals'', ''nakal_detail'']) 1 3,
            ErrorRetrying (FormFieldNotFoundException [''nakals'', ''nakal_detail'']) 2 3,
            ErrorRetrying (FormFieldNotFoundException [''nakals'', ''nakal_detail'']) 3 3,
            TracebackText (Some (FormFieldNotFoundException [''nakals'', ''nakal_detail''])),
            Line ''All retries failed. Here's the traceback:'']"
proof -
  have d1: "select_District p1 \<noteq> []" using assms(11) dict_getitem_Some_not_Nil by fastforce
  have d2: "select_Tehsil p2 \<noteq> []" using assms(12) dict_getitem_Some_not_Nil by fastforce
  have d3: "select_Village p3 \<noteq> []" using assms(13) dict_getitem_Some_not_Nil by fastforce
  have d5: "select_Khasra p5 \<noteq> []" using assms(15) dict_getitem_Some_not_Nil by fastforce
  note oks = get_jamabandi_page_ok get_districts_ok get_sub_districts_ok get_villeges_ok
    get_years_ok get_khasras_ok get_nakals_no_rows_thrice
  note facts = assms(1-10) d1 d2 d3 d5 assms(14) assms(16-18)
    assms(11,12,13,15) [THEN dict_getitem_contains]
    assms(11,12,13,15) [THEN dict_getitem_subscript]
  show "fst (extract_data dn tn vn kn dest w) = Inl (SystemExit exit_message)"
    unfolding extract_data_def by (simp add: oks facts)
  show "script (snd (extract_data dn tn vn kn dest w)) = rest"
    unfolding extract_data_def by (simp add: oks facts)
  show "sleeps_of (trace (snd (extract_data dn tn vn kn dest w))) = sleeps_of (trace w) @ [5, 5, 5]"
    unfolding extract_data_def by (simp add: oks facts)
  show "map (field_of ''__EVENTTARGET'')
           (drop (length (requests_of (trace w)))
              (requests_of (trace (snd (extract_data dn tn vn kn dest w))))) =
           [None,
            Some (Some ''ctl00$ContentPlaceHolder1$RdobtnKhasra''),
            Some (Some ''ctl00$ContentPlaceHolder1$ddldname''),
            Some (Some ''ctl00$ContentPlaceHolder1$ddltname''),
            Some (Some ''ctl00$ContentPlaceHolder1$ddlvname''),
            Some (Some ''ctl00$ContentPlaceHolder1$ddlPeriod''),
            Some (Some ''ctl00$ContentPlaceHolder1$ddlkhasra''),
            Some (Some ''ctl00$ContentPlaceHolder1$ddlkhasra''),
            Some (Some ''ctl00$ContentPlaceHolder1$ddlkhasra'')]"
    unfolding extract_data_def
    by (simp add: oks facts get_districts_data_def get_sub_districts_data_def
        get_villeges_data_def get_years_data_def get_khasras_data_def get_nakals_data_def
        form_data_def)
  show "printed_of (drop (length (trace w)) (trace (snd (extract_data dn tn vn kn dest w)))) =
           map Line (take 7 progress_lines) @
           [ErrorRetrying (FormFieldNotFoundException [''nakals'', ''nakal_detail'']) 1 3,
            ErrorRetrying (FormFieldNotFoundException [''nakals'', ''nakal_detail'']) 2 3,
            ErrorRetrying (FormFieldNotFoundException [''nakals'', ''nakal_detail'']) 3 3,
            TracebackText (Some (FormFieldNotFoundException [''nakals'', ''nakal_detail''])),
            Line ''All retries failed. Here's the traceback:'']"
    unfolding extract_data_def by (simp add: oks facts progress_lines_def)
qed

lemma wrapper_Inr_body:
  "wrapper retries delay allowed func attempt err s = (Inr v, s') \<Longrightarrow> \<exists>s0. func s0 = (Inr v, s')"
proof (induction retries delay allowed func attempt err s rule: wrapper.induct)
  case (1 retries delay allowed func attempt err s)
  note run = "1.prems"
  show ?case
  proof (cases "attempt < retries")
    case False
    with run show ?thesis by (subst (asm) wrapper.simps) simp
  next
    case True
    obtain r s1 where f: "func s = (r, s1)" by (cases "func s")
    show ?thesis
    proof (cases r)
      case (Inr x)
      with run True f have "func s = (Inr v, s')" by (subst (asm) wrapper.simps) simp
      then show ?thesis by blast
    next
      case (Inl e)
      show ?thesis
      proof (cases "allowed e")
        case False
        with run True f Inl show ?thesis by (subst (asm) wrapper.simps) simp
      next
        case a: True
        from run True f Inl a
        have "wrapper retries delay allowed func (attempt + 1) (Some e)
                (time_sleep delay (say (ErrorRetrying e (attempt + 1) retries) s1)) = (Inr v, s')"
          by (subst (asm) wrapper.simps) simp
        from "1.IH" [OF True f [symmetric] Inl a this] show ?thesis .
      qed
    qed
  qed
qed

lemma get_nakals_body_not_empty:
  "get_nakals_body di ti vi y ki s = (Inr (nakals, detail), s') \<Longrightarrow> nakals \<noteq> []"
  by (auto simp: get_nakals_body_def split: prod.splits sum.splits if_splits)

lemma get_nakals_not_empty:
  "get_nakals di ti vi y ki s = (Inr (nakals, detail), s') \<Longrightarrow> nakals \<noteq> []"
  unfolding get_nakals_def retry_on_exception_def
  by (drule wrapper_Inr_body) (auto dest: get_nakals_body_not_empty)

lemma never_nakal_is_empty:
  "fst (extract_data dn tn vn kn dest w) \<noteq> Inr (Message ''Nakal is empty!'')"
  unfolding extract_data_def
  by (auto split: prod.splits sum.splits if_splits list.splits dest: get_nakals_not_empty)

subsection \<open>What a step that returns has consumed\<close>

lemma send_consumes: "\<exists>used. script w = used @ script (snd (send req w))"
proof (cases "script w")
  case Nil
  then show ?thesis by (simp add: send_def)
next
  case (Cons r rest)
  then have "script w = [r] @ script (snd (send req w))"
    by (cases r) (simp_all add: send_def)
  then show ?thesis by blast
qed

lemma post_consumes:
  "\<exists>used. script (snd s) = used @ script (snd (snd (post_and_update_state data t s)))"
  using send_consumes [of "snd s" "POST jamabandi_uri data t"]
  by (auto simp: post_and_update_state_def say_def split: prod.splits sum.splits)

lemma post_Inr_script:
  "post_and_update_state data t s = (Inr p, s1) \<Longrightarrow> script (snd s) = Page p # script (snd s1)"
  by (auto simp: post_and_update_state_def send_def Let_def
      split: prod.splits sum.splits if_splits list.splits reply.splits)

lemma snd_get_nakals_body:
  "snd (get_nakals_body di ti vi y ki s) =
   snd (post_and_update_state (get_nakals_data (fst s) di ti vi y ki) None s)"
  by (auto simp: get_nakals_body_def split: prod.splits sum.splits)

lemma get_nakals_body_consumes:
  "\<forall>s. \<exists>used. script (snd s) = used @ script (snd (snd (get_nakals_body di ti vi y ki s)))"
  using post_consumes snd_get_nakals_body by simp

lemma nakal_rows_loop_Inr_links:
  "nakal_rows_loop rows nakals detail = Inr x \<Longrightarrow> \<forall>r \<in> set rows. href r \<noteq> None"
  by (induction rows arbitrary: nakals detail) (auto split: option.splits)

lemma get_nakals_body_Inr:
  assumes "get_nakals_body di ti vi y ki s0 = (Inr (nakals, detail), s')"
  shows "\<exists>p. script (snd s0) = Page p # script (snd s') \<and> GridView_rows p \<noteq> [] \<and>
             (\<forall>r \<in> set (GridView_rows p). href r \<noteq> None) \<and>
             nakals = nakals_of_rows (GridView_rows p) \<and>
             detail = detail_of_rows (GridView_rows p)"
proof -
  from assms obtain p where
    post: "post_and_update_state (get_nakals_data (fst s0) di ti vi y ki) None s0 = (Inr p, s')"
    and loop: "nakal_rows_loop (GridView_rows p) []
                 \<lparr>khewat_no = Some [], khatoni_no = Some []\<rparr> = Inr (nakals, detail)"
    and ne: "nakals \<noteq> []"
    by (auto simp: get_nakals_body_def split: prod.splits sum.splits if_splits)
  have links: "\<forall>r \<in> set (GridView_rows p). href r \<noteq> None"
    using loop by (rule nakal_rows_loop_Inr_links)
  from nakal_rows_loop_links [OF links, of "[]" "\<lparr>khewat_no = Some [], khatoni_no = Some []\<rparr>"] loop
  have res: "nakals = nakals_of_rows (GridView_rows p)"
    "detail = (if GridView_rows p = [] then \<lparr>khewat_no = Some [], khatoni_no = Some []\<rparr>
               else detail_of_rows (GridView_rows p))"
    by simp_all
  have rows: "GridView_rows p \<noteq> []"
    using ne res(1) by (auto simp: nakals_of_rows_def)
  show ?thesis
    using post_Inr_script [OF post] rows links res by auto
qed

lemma wrapper_Inr_consumed:
  "\<forall>s. \<exists>used. script (snd s) = used @ script (snd (snd (func s))) \<Longrightarrow>
   wrapper retries delay allowed func attempt err s = (Inr v, s') \<Longrightarrow>
   \<exists>s0 used. func s0 = (Inr v, s') \<and> script (snd s) = used @ script (snd s0)"
proof (induction retries delay allowed func attempt err s rule: wrapper.induct)
  case (1 retries delay allowed func attempt err s)
  note run = "1.prems"(2)
  show ?case
  proof (cases "attempt < retries")
    case False
    with run show ?thesis by (subst (asm) wrapper.simps) simp
  next
    case True
    obtain r s1 where f: "func s = (r, s1)" by (cases "func s")
    show ?thesis
    proof (cases r)
      case (Inr x)
      with run True f have "func s = (Inr v, s')" by (subst (asm) wrapper.simps) simp
      then have "func s = (Inr v, s') \<and> script (snd s) = [] @ script (snd s)" by simp
      then show ?thesis by blast
    next
      case (Inl e)
      show ?thesis
      proof (cases "allowed e")
        case False
        with run True f Inl show ?thesis by (subst (asm) wrapper.simps) simp
      next
        case a: True
        from run True f Inl a
        have "wrapper retries delay allowed func (attempt + 1) (Some e)
                (time_sleep delay (say (ErrorRetrying e (attempt + 1) retries) s1)) = (Inr v, s')"
          by (subst (asm) wrapper.simps) simp
        from "1.IH" [OF True f [symmetric] Inl a "1.prems"(1) this]
        obtain s0 used2 where s0: "func s0 = (Inr v, s')"
          and u2: "script (snd s1) = used2 @ script (snd s0)"
          by (auto simp: time_sleep_def say_def)
        from "1.prems"(1) [THEN spec, of s] f
        obtain used1 where "script (snd s) = used1 @ script (snd s1)"
          by auto
        with u2 have "script (snd s) = (used1 @ used2) @ script (snd s0)" by simp
        with s0 show ?thesis by blast
      qed
    qed
  qed
qed

lemma get_nakals_Inr:
  assumes "get_nakals di ti vi y ki s = (Inr (nakals, detail), s')"
  shows "\<exists>used p. script (snd s) = used @ Page p # script (snd s') \<and> GridView_rows p \<noteq> [] \<and>
             (\<forall>r \<in> set (GridView_rows p). href r \<noteq> None) \<and>
             nakals = nakals_of_rows (GridView_rows p) \<and>
             detail = detail_of_rows (GridView_rows p)"
proof -
  from assms have "wrapper 3 5 allowed_exceptions (get_nakals_body di ti vi y ki) 0 None s =
                     (Inr (nakals, detail), s')"
    by (simp add: get_nakals_def retry_on_exception_def)
  from wrapper_Inr_consumed [OF get_nakals_body_consumes this]
  obtain s0 used where b: "get_nakals_body di ti vi y ki s0 = (Inr (nakals, detail), s')"
    and u: "script (snd s) = used @ script (snd s0)"
    by blast
  from get_nakals_body_Inr [OF b] u show ?thesis by auto
qed

lemma get_years_body_not_empty:
  "get_years_body di ti vi s = (Inr years, s') \<Longrightarrow> years \<noteq> []"
  by (auto simp: get_years_body_def split: prod.splits sum.splits if_splits)

lemma get_years_not_empty:
  "get_years di ti vi s = (Inr years, s') \<Longrightarrow> years \<noteq> []"
  unfolding get_years_def retry_on_exception_def
  by (drule wrapper_Inr_body) (auto dest: get_years_body_not_empty)

subsection \<open>A step that succeeds at its second attempt\<close>

lemma retry_second_try:
  assumes "func s = (Inl e, s1)" and "allowed e"
    and "func (time_sleep 5 (say (ErrorRetrying e 1 3) s1)) = (Inr v, s2)"
  shows "retry_on_exception 3 5 allowed func s = (Inr v, s2)"
proof -
  have "wrapper 3 5 allowed func 0 None s =
        wrapper 3 5 allowed func 1 (Some e) (time_sleep 5 (say (ErrorRetrying e 1 3) s1))"
    using wrapper_retry [of 0 3 func s e s1 allowed 5 None] assms(1,2) by simp
  also have "\<dots> = (Inr v, s2)"
    using assms(3) by (intro wrapper_return) simp_all
  finally show ?thesis by (simp add: retry_on_exception_def)
qed

lemma get_nakals_after_unreachable:
  assumes "script w = Unreachable # Page p # rest" and "valid_tokens p"
    and "GridView_rows p \<noteq> []" and "\<forall>r \<in> set (GridView_rows p). href r \<noteq> None"
  shows "get_nakals di ti vi y ki (j, w) =
     (Inr (nakals_of_rows (GridView_rows p), detail_of_rows (GridView_rows p)),
      (refreshed j p,
       answered (POST jamabandi_uri (get_nakals_data j di ti vi y ki) None) rest
         (emit (Slept 5) (emit (Printed (ErrorRetrying ConnectionError 1 3))
            (answered (POST jamabandi_uri (get_nakals_data j di ti vi y ki) None)
               (Page p # rest) w)))))"
proof -
  let ?w1 = "answered (POST jamabandi_uri (get_nakals_data j di ti vi y ki) None) (Page p # rest) w"
  have h1: "get_nakals_body di ti vi y ki (j, w) = (Inl ConnectionError, (j, ?w1))"
    using assms(1)
    by (simp add: get_nakals_body_def post_and_update_state_def send_def emit_def answered_def)
  have a: "allowed_exceptions ConnectionError" by (simp add: allowed_exceptions_def)
  have h2: "get_nakals_body di ti vi y ki
              (time_sleep 5 (say (ErrorRetrying ConnectionError 1 3) (j, ?w1))) =
            (Inr (nakals_of_rows (GridView_rows p), detail_of_rows (GridView_rows p)),
             (refreshed j p,
              answered (POST jamabandi_uri (get_nakals_data j di ti vi y ki) None) rest
                (emit (Slept 5) (emit (Printed (ErrorRetrying ConnectionError 1 3)) ?w1))))"
    using assms(2-4) by (simp add: get_nakals_body_ok)
  show ?thesis
    unfolding get_nakals_def
    using retry_second_try [where func = "get_nakals_body di ti vi y ki"
            and allowed = allowed_exceptions, OF h1 a h2] .
qed

section \<open>Facts about the example data\<close>

lemmas example_defs = blank_page_def form_page_def home_page_def district_page_def tehsil_page_def
  village_page_def year_page_def khasra_page_def nakal_page_def selected_page_def
  document_page_def canned_responses_def fresh_world_def three_rows_page_def two_years_page_def
  three_rows_responses_def no_rows_page_def no_rows_responses_def
  home_page_without_argument_def responses_without_argument_def home_page_without_viewstate_def

lemmas table_defs = example_table_def stored_data_def search_records_by_input_data_def
  matches_def

lemma canned_valid:
  "valid_initial home_page" "valid_tokens district_page" "valid_tokens tehsil_page"
  "valid_tokens village_page" "valid_tokens year_page" "valid_tokens khasra_page"
  "valid_tokens nakal_page" "valid_tokens selected_page" "valid_tokens two_years_page"
  "valid_tokens three_rows_page" "valid_tokens no_rows_page"
  "valid_initial home_page_without_argument"
  by (simp_all add: valid_initial_def valid_tokens_def falsy_def example_defs)

lemma canned_lookups:
  "dict_getitem (dict_comprehension (select_District district_page)) (Some ''DistrictA'') = Some (Some ''01'')"
  "dict_getitem (dict_comprehension (select_Tehsil tehsil_page)) (Some ''TehsilA'') = Some (Some ''001'')"
  "dict_getitem (dict_comprehension (select_Village village_page)) (Some ''VillageA'') = Some (Some ''0284'')"
  "dict_getitem (dict_comprehension (select_Khasra khasra_page)) (Some ''6'') = Some (Some ''6'')"
  by (simp_all add: dict_getitem_def dict_comprehension_def example_defs)

lemma example_nakal_id:
  "nakal_id_of_href ''javascript:__doPostBack('ctl00$ContentPlaceHolder1$GridView1','Select$0')'' = ''Select$0''"
  by (simp add: nakal_id_of_href_def split_dollar_last_def)

lemma canned_nonempty:
  "select_District district_page \<noteq> []" "select_Tehsil tehsil_page \<noteq> []"
  "select_Village village_page \<noteq> []" "select_Year year_page = [''2022-2023'']"
  "select_Khasra khasra_page \<noteq> []"
  by (simp_all add: example_defs)

lemma canned_absent:
  "\<not> dict_contains (dict_comprehension (select_District district_page)) (Some ''districta'')"
  "\<not> dict_contains (dict_comprehension (select_Tehsil tehsil_page)) (Some ''Tehsil A'')"
  "\<not> dict_contains (dict_comprehension (select_Village village_page)) (Some ''VillageB'')"
  "\<not> dict_contains (dict_comprehension (select_Khasra khasra_page)) (Some ''6//1'')"
  by (simp_all add: dict_contains_def dict_comprehension_def example_defs)

lemma canned_run_to_file:
  "extract_data ''DistrictA'' ''TehsilA'' ''VillageA'' ''6''
     (Some (html_path ''DistrictA'' ''TehsilA'' ''VillageA'' ''6''))
     (emit (Printed extraction_started) (fresh_world canned_responses)) =
   (Inr (Output
       \<lparr>out_district_name = ''DistrictA'', out_district_code = Some ''01'',
        out_tehsil_name = ''TehsilA'', out_tehsil_code = Some ''001'',
        out_villege_name = ''VillageA'', out_villege_code = Some ''0284'',
        out_jamabandi_year = ''2022-2023'',
        out_khewat_no = Some ''3'', out_khatoni_no = Some ''9'',
        out_khasra_code = Some ''6'', out_khasra_no = ''6'',
        out_inner_details =
          \<lparr>villege = Some ''VillageA'', hadbast_no = Some ''50'', tehsil = Some ''TehsilA'',
           district = Some ''DistrictA'', year = Some ''2022-2023''\<rparr>\<rparr>),
    \<lparr>script = [],
     trace = Printed extraction_started #
       clean_run_trace
         (clean_run_requests [home_page, district_page, tehsil_page, village_page, year_page,
            khasra_page, nakal_page, selected_page] (Some ''01'') (Some ''001'') (Some ''0284'')
            ''2022-2023'' (Some ''6'') ''Select$0'')
         (Some (html_path ''DistrictA'' ''TehsilA'' ''VillageA'' ''6'')), unwritable = []\<rparr>)"
proof -
  have s: "script (emit (Printed extraction_started) (fresh_world canned_responses)) =
      Page home_page # Page district_page # Page tehsil_page # Page village_page #
      Page year_page # Page khasra_page # Page nakal_page # Page selected_page #
      Page document_page # []"
    by (simp add: fresh_world_def canned_responses_def)
  have r: "GridView_rows nakal_page =
      [\<lparr>href = Some ''javascript:__doPostBack('ctl00$ContentPlaceHolder1$GridView1','Select$0')'',
        td2 = Some ''3'', td3 = Some ''9''\<rparr>]"
    by (simp add: example_defs)
  have "GridView_rows nakal_page \<noteq> []" "\<forall>r \<in> set (GridView_rows nakal_page). href r \<noteq> None"
    by (simp_all add: r)
  moreover have "writable (Some (html_path ''DistrictA'' ''TehsilA'' ''VillageA'' ''6''))
                   (emit (Printed extraction_started) (fresh_world canned_responses))"
    by (simp add: writable_def fresh_world_def)
  ultimately show ?thesis
    using extract_data_clean_run [OF s canned_valid(1-8) canned_lookups(1-3) canned_nonempty(4)
            canned_lookups(4)]
    by (simp add: r example_nakal_id document_page_def blank_page_def fresh_world_def)
qed

lemma run_without_hadbast:
  "extract_data ''DistrictA'' ''TehsilA'' ''VillageA'' ''6''
     (Some (html_path ''DistrictA'' ''TehsilA'' ''VillageA'' ''6''))
     (emit (Printed extraction_started) (fresh_world responses_without_hadbast)) =
   (Inr (Output
       \<lparr>out_district_name = ''DistrictA'', out_district_code = Some ''01'',
        out_tehsil_name = ''TehsilA'', out_tehsil_code = Some ''001'',
        out_villege_name = ''VillageA'', out_villege_code = Some ''0284'',
        out_jamabandi_year = ''2022-2023'',
        out_khewat_no = Some ''3'', out_khatoni_no = Some ''9'',
        out_khasra_code = Some ''6'', out_khasra_no = ''6'',
        out_inner_details =
          \<lparr>villege = Some ''VillageA'', hadbast_no = None, tehsil = Some ''TehsilA'',
           district = Some ''DistrictA'', year = Some ''2022-2023''\<rparr>\<rparr>),
    \<lparr>script = [],
     trace = Printed extraction_started #
       clean_run_trace
         (clean_run_requests [home_page, district_page, tehsil_page, village_page, year_page,
            khasra_page, nakal_page, selected_page] (Some ''01'') (Some ''001'') (Some ''0284'')
            ''2022-2023'' (Some ''6'') ''Select$0'')
         (Some (html_path ''DistrictA'' ''TehsilA'' ''VillageA'' ''6'')), unwritable = []\<rparr>)"
proof -
  have s: "script (emit (Printed extraction_started) (fresh_world responses_without_hadbast)) =
      Page home_page # Page district_page # Page tehsil_page # Page village_page #
      Page year_page # Page khasra_page # Page nakal_page # Page selected_page #
      Page document_page_without_hadbast # []"
    by (simp add: fresh_world_def responses_without_hadbast_def)
  have r: "GridView_rows nakal_page =
      [\<lparr>href = Some ''javascript:__doPostBack('ctl00$ContentPlaceHolder1$GridView1','Select$0')'',
        td2 = Some ''3'', td3 = Some ''9''\<rparr>]"
    by (simp add: example_defs)
  have "GridView_rows nakal_page \<noteq> []" "\<forall>r \<in> set (GridView_rows nakal_page). href r \<noteq> None"
    by (simp_all add: r)
  moreover have "writable (Some (html_path ''DistrictA'' ''TehsilA'' ''VillageA'' ''6''))
                   (emit (Printed extraction_started) (fresh_world responses_without_hadbast))"
    by (simp add: writable_def fresh_world_def)
  ultimately show ?thesis
    using extract_data_clean_run [OF s canned_valid(1-8) canned_lookups(1-3) canned_nonempty(4)
            canned_lookups(4)]
    by (simp add: r example_nakal_id document_page_without_hadbast_def document_page_def
        blank_page_def fresh_world_def)
qed

lemma retried_run:
  "fst (extract_data ''DistrictA'' ''TehsilA'' ''VillageA'' ''6'' None
          (fresh_world retried_responses)) =
     Inr (Output
       \<lparr>out_district_name = ''DistrictA'', out_district_code = Some ''01'',
        out_tehsil_name = ''TehsilA'', out_tehsil_code = Some ''001'',
        out_villege_name = ''VillageA'', out_villege_code = Some ''0284'',
        out_jamabandi_year = ''2022-2023'',
        out_khewat_no = Some ''7'', out_khatoni_no = Some ''15'',
        out_khasra_code = Some ''6'', out_khasra_no = ''6'',
        out_inner_details =
          \<lparr>villege = Some ''VillageA'', hadbast_no = Some ''50'', tehsil = Some ''TehsilA'',
           district = Some ''DistrictA'', year = Some ''2022-2023''\<rparr>\<rparr>)"
  "sleeps_of (trace (snd (extract_data ''DistrictA'' ''TehsilA'' ''VillageA'' ''6'' None
          (fresh_world retried_responses)))) = [5]"
proof -
  have y: "select_Year two_years_page = [''2022-2023'', ''2017-2018'']"
    by (simp add: example_defs)
  have r: "GridView_rows three_rows_page =
        [\<lparr>href = Some ''javascript:__doPostBack('ctl00$ContentPlaceHolder1$GridView1','Select$0')'',
          td2 = Some ''3'', td3 = Some ''9''\<rparr>,
         \<lparr>href = Some ''javascript:__doPostBack('ctl00$ContentPlaceHolder1$GridView1','Select$1')'',
          td2 = Some ''4'', td3 = Some ''11''\<rparr>,
         \<lparr>href = Some ''javascript:__doPostBack('ctl00$ContentPlaceHolder1$GridView1','Select$2')'',
          td2 = Some ''7'', td3 = Some ''15''\<rparr>]"
    by (simp add: example_defs)
  note oks = get_jamabandi_page_ok get_districts_ok get_sub_districts_ok get_villeges_ok
    get_years_ok get_khasras_ok get_nakals_after_unreachable select_nakals_ok get_nakal_html_ok
  note facts = canned_valid canned_nonempty(1-3,5) fresh_world_def retried_responses_def
    canned_lookups [THEN dict_getitem_contains] canned_lookups [THEN dict_getitem_subscript]
  show "fst (extract_data ''DistrictA'' ''TehsilA'' ''VillageA'' ''6'' None
          (fresh_world retried_responses)) =
     Inr (Output
       \<lparr>out_district_name = ''DistrictA'', out_district_code = Some ''01'',
        out_tehsil_name = ''TehsilA'', out_tehsil_code = Some ''001'',
        out_villege_name = ''VillageA'', out_villege_code = Some ''0284'',
        out_jamabandi_year = ''2022-2023'',
        out_khewat_no = Some ''7'', out_khatoni_no = Some ''15'',
        out_khasra_code = Some ''6'', out_khasra_no = ''6'',
        out_inner_details =
          \<lparr>villege = Some ''VillageA'', hadbast_no = Some ''50'', tehsil = Some ''TehsilA'',
           district = Some ''DistrictA'', year = Some ''2022-2023''\<rparr>\<rparr>)"
    unfolding extract_data_def
    by (simp add: oks facts y r nakals_of_rows_def detail_of_rows_def document_page_def
        blank_page_def)
  show "sleeps_of (trace (snd (extract_data ''DistrictA'' ''TehsilA'' ''VillageA'' ''6'' None
          (fresh_world retried_responses)))) = [5]"
    unfolding extract_data_def
    by (simp add: oks facts y r nakals_of_rows_def detail_of_rows_def)
qed

lemma no_rows_script:
  "script (fresh_world no_rows_responses) =
     Page home_page # Page district_page # Page tehsil_page # Page village_page #
     Page year_page # Page khasra_page # Page no_rows_page # Page no_rows_page #
     Page no_rows_page # []"
  "trace (fresh_world no_rows_responses) = []"
  "GridView_rows no_rows_page = []"
  by (simp_all add: example_defs)

lemma without_argument_script:
  "script (fresh_world responses_without_argument) =
     Page home_page_without_argument # Page district_page # Page tehsil_page #
     Page village_page # Page year_page # Page khasra_page # Page nakal_page #
     Page selected_page # Page document_page # []"
  "trace (fresh_world responses_without_argument) = []"
  "input_EVENTARGUMENT home_page_without_argument = None"
  "GridView_rows nakal_page =
      [\<lparr>href = Some ''javascript:__doPostBack('ctl00$ContentPlaceHolder1$GridView1','Select$0')'',
        td2 = Some ''3'', td3 = Some ''9''\<rparr>]"
  by (simp_all add: example_defs)

section \<open>The claims\<close>

text \<open>
  Claim C1.  A step whose response lacks \<open>__VIEWSTATE\<close> or \<open>__EVENTVALIDATION\<close>
  raises \<open>FormFieldNotFoundException\<close> and leaves the four fields of the session as they
  were.  The POST steps do so (\<open>cascading_steps_keep_tokens\<close> below).  The first GET
  does not: on a fresh session, a page without \<open>__VIEWSTATE\<close> makes it raise after it
  has stored the other three values of the page.
\<close>

theorem initialize_failure_overwrites_tokens:
  "get_jamabandi_page_body
     (JamabandiDataExtractor_init, fresh_world [Page home_page_without_viewstate]) =
   (Inl (FormFieldNotFoundException [''viewstate'', ''event_validation'', ''viewstate_generator'']),
    (\<lparr>viewstate = None, event_arg = Some ''EA'', event_validation = Some ''EV'',
      viewstate_generator = Some ''VG''\<rparr>,
     \<lparr>script = [],
      trace = [Sent (GET jamabandi_uri (Some request_timeout)), Printed failed_to_extract], unwritable = []\<rparr>))"
  by (simp add: get_jamabandi_page_body_def send_def emit_def falsy_def fresh_world_def
      home_page_without_viewstate_def blank_page_def JamabandiDataExtractor_init_def)

lemma cascading_step_keeps_tokens:
  assumes "script w = Page p # rest" and "\<not> valid_tokens p"
  shows "post_and_update_state data t (j, w) =
           (Inl (FormFieldNotFoundException [''viewstate'', ''event_validation'']),
            (j, emit (Printed failed_to_extract) (answered (POST jamabandi_uri data t) rest w)))"
  using assms by (simp add: post_and_update_state_def send_page valid_tokens_def)

lemma cascading_steps_keep_tokens:
  assumes "script w = Page p # rest" and "\<not> valid_tokens p"
  shows "get_districts_body (j, w) =
           (Inl (FormFieldNotFoundException [''viewstate'', ''event_validation'']),
            (j, emit (Printed failed_to_extract)
                  (answered (POST jamabandi_uri (get_districts_data j) (Some request_timeout))
                     rest w)))"
    and "fst (get_sub_districts_body di (j, w)) =
           Inl (FormFieldNotFoundException [''viewstate'', ''event_validation''])"
    and "fst (snd (get_sub_districts_body di (j, w))) = j"
    and "fst (get_villeges_body di ti (j, w)) =
           Inl (FormFieldNotFoundException [''viewstate'', ''event_validation''])"
    and "fst (snd (get_villeges_body di ti (j, w))) = j"
    and "fst (get_years_body di ti vi (j, w)) =
           Inl (FormFieldNotFoundException [''viewstate'', ''event_validation''])"
    and "fst (snd (get_years_body di ti vi (j, w))) = j"
    and "fst (get_khasras_body di ti vi y (j, w)) =
           Inl (FormFieldNotFoundException [''viewstate'', ''event_validation''])"
    and "fst (snd (get_khasras_body di ti vi y (j, w))) = j"
    and "fst (get_nakals_body di ti vi y ki (j, w)) =
           Inl (FormFieldNotFoundException [''viewstate'', ''event_validation''])"
    and "fst (snd (get_nakals_body di ti vi y ki (j, w))) = j"
    and "fst (select_nakals_body di ti vi y ki n (j, w)) =
           Inl (FormFieldNotFoundException [''viewstate'', ''event_validation''])"
    and "fst (snd (select_nakals_body di ti vi y ki n (j, w))) = j"
  using assms
  by (simp_all add: get_districts_body_def get_sub_districts_body_def get_villeges_body_def
      get_years_body_def get_khasras_body_def get_nakals_body_def select_nakals_body_def
      cascading_step_keeps_tokens)

text \<open>
  Claim C2.  When \<open>get_nakals\<close> finds no candidate row, \<open>extract_data\<close> is to return
  its message \<open>Nakal is empty!\<close> to the caller, without a retry and without ending the
  process; the check \<open>if not nakals\<close> of \<open>extract_data\<close> is written for that.  The
  program does not get there: \<open>get_nakals\<close> raises on an empty list, inside the
  decorator.  On the example pages with a table without rows, every attempt raises
  \<open>FormFieldNotFoundException\<close> for \<open>nakals\<close> and \<open>nakal_detail\<close>, the request is
  sent three times with a sleep of 5 after each, and the run ends with \<open>SystemExit\<close>.
  Lemma \<open>never_nakal_is_empty\<close> above shows that no run at all returns the message.
\<close>

theorem empty_table_is_retried_then_fatal:
  "fst (extract_data ''DistrictA'' ''TehsilA'' ''VillageA'' ''6'' None
          (fresh_world no_rows_responses)) = Inl (SystemExit exit_message) \<and>
   fst (extract_data ''DistrictA'' ''TehsilA'' ''VillageA'' ''6'' None
          (fresh_world no_rows_responses)) \<noteq> Inr (Message ''Nakal is empty!'') \<and>
   script (snd (extract_data ''DistrictA'' ''TehsilA'' ''VillageA'' ''6'' None
          (fresh_world no_rows_responses))) = [] \<and>
   map (field_of ''__EVENTTARGET'')
     (requests_of (trace (snd (extract_data ''DistrictA'' ''TehsilA'' ''VillageA'' ''6'' None
          (fresh_world no_rows_responses))))) =
     [None,
      Some (Some ''ctl00$ContentPlaceHolder1$RdobtnKhasra''),
      Some (Some ''ctl00$ContentPlaceHolder1$ddldname''),
      Some (Some ''ctl00$ContentPlaceHolder1$ddltname''),
      Some (Some ''ctl00$ContentPlaceHolder1$ddlvname''),
      Some (Some ''ctl00$ContentPlaceHolder1$ddlPeriod''),
      Some (Some ''ctl00$ContentPlaceHolder1$ddlkhasra''),
      Some (Some ''ctl00$ContentPlaceHolder1$ddlkhasra''),
      Some (Some ''ctl00$ContentPlaceHolder1$ddlkhasra'')] \<and>
   sleeps_of (trace (snd (extract_data ''DistrictA'' ''TehsilA'' ''VillageA'' ''6'' None
          (fresh_world no_rows_responses)))) = [5, 5, 5] \<and>
   printed_of (trace (snd (extract_data ''DistrictA'' ''TehsilA'' ''VillageA'' ''6'' None
          (fresh_world no_rows_responses)))) =
     [Line ''Fetching jamabandi page.'', Line ''Getting districts.'',
      Line ''Getting sub-districts.'', Line ''Getting villeges.'', Line ''Getting years.'',
      Line ''Getting khasras.'', Line ''Getting nakals.'',
      ErrorRetrying (FormFieldNotFoundException [''nakals'', ''nakal_detail'']) 1 3,
      ErrorRetrying (FormFieldNotFoundException [''nakals'', ''nakal_detail'']) 2 3,
      ErrorRetrying (FormFieldNotFoundException [''nakals'', ''nakal_detail'']) 3 3,
      TracebackText (Some (FormFieldNotFoundException [''nakals'', ''nakal_detail''])),
      Line ''All retries failed. Here's the traceback:'']"
proof -
  note run = no_candidates_run
          [OF no_rows_script(1) canned_valid(1-6) canned_valid(11) canned_valid(11)
              canned_valid(11) canned_lookups(1-3) canned_nonempty(4) canned_lookups(4)
              no_rows_script(3) no_rows_script(3) no_rows_script(3), of None]
  show ?thesis
    using run by (simp add: no_rows_script(2) progress_lines_def)
qed

text \<open>
  Claim C3.  The decorator with \<open>retries=3\<close> and \<open>delay=5\<close> around a function whose
  three calls all raise an allowed exception: the function is called on the given state,
  then on the state left by each failure after the retry message and a sleep of 5, three
  times in all; after the third failure and its sleep the traceback of that third failure
  is printed and \<open>SystemExit\<close> is raised.
\<close>

theorem retry_envelope_three_attempts:
  assumes "func s0 = (Inl e1, s1)" and "allowed e1"
    and "func (time_sleep 5 (say (ErrorRetrying e1 1 3) s1)) = (Inl e2, s2)" and "allowed e2"
    and "func (time_sleep 5 (say (ErrorRetrying e2 2 3) s2)) = (Inl e3, s3)" and "allowed e3"
  shows "retry_on_exception 3 5 allowed func s0 =
         (Inl (SystemExit exit_message),
          say (Line ''All retries failed. Here's the traceback:'')
            (say (TracebackText (Some e3)) (time_sleep 5 (say (ErrorRetrying e3 3 3) s3))))"
  using assms by (rule retry_all_three_fail)

text \<open>
  \<open>get_districts\<close> against a server that is unreachable, then answers with an error
  status, then with a page that lacks \<open>__VIEWSTATE\<close>: three requests, a sleep of 5 after
  each, and the exit.
\<close>

theorem retry_envelope_three_attempts_witness:
  "allowed_exceptions ConnectionError \<and> allowed_exceptions HTTPError \<and>
   allowed_exceptions (FormFieldNotFoundException [''viewstate'', ''event_validation'']) \<and>
   get_districts
     (JamabandiDataExtractor_init,
      fresh_world [Unreachable, BadStatus, Page home_page_without_viewstate]) =
     (Inl (SystemExit exit_message),
      (JamabandiDataExtractor_init,
       \<lparr>script = [],
        trace =
          [Sent (POST jamabandi_uri (get_districts_data JamabandiDataExtractor_init)
                   (Some request_timeout)),
           Printed (ErrorRetrying ConnectionError 1 3), Slept 5,
           Sent (POST jamabandi_uri (get_districts_data JamabandiDataExtractor_init)
                   (Some request_timeout)),
           Printed (ErrorRetrying HTTPError 2 3), Slept 5,
           Sent (POST jamabandi_uri (get_districts_data JamabandiDataExtractor_init)
                   (Some request_timeout)),
           Printed failed_to_extract,
           Printed (ErrorRetrying
                      (FormFieldNotFoundException [''viewstate'', ''event_validation'']) 3 3),
           Slept 5,
           Printed (TracebackText
                      (Some (FormFieldNotFoundException [''viewstate'', ''event_validation'']))),
           Printed (Line ''All retries failed. Here's the traceback:'')], unwritable = []\<rparr>))"
proof -
  let ?j = JamabandiDataExtractor_init
  let ?r = "Sent (POST jamabandi_uri (get_districts_data ?j) (Some request_timeout))"
  let ?e3 = "FormFieldNotFoundException [''viewstate'', ''event_validation'']"
  have a: "allowed_exceptions ConnectionError" "allowed_exceptions HTTPError"
    "allowed_exceptions ?e3"
    by (simp_all add: allowed_exceptions_def)
  have h1: "get_districts_body
              (?j, fresh_world [Unreachable, BadStatus, Page home_page_without_viewstate]) =
            (Inl ConnectionError,
             (?j, \<lparr>script = [BadStatus, Page home_page_without_viewstate], trace = [?r], unwritable = []\<rparr>))"
    by (simp add: get_districts_body_def post_and_update_state_def send_def emit_def
        fresh_world_def)
  have h2: "get_districts_body
              (time_sleep 5 (say (ErrorRetrying ConnectionError 1 3)
                 (?j, \<lparr>script = [BadStatus, Page home_page_without_viewstate], trace = [?r], unwritable = []\<rparr>))) =
            (Inl HTTPError,
             (?j, \<lparr>script = [Page home_page_without_viewstate],
                   trace = [?r, Printed (ErrorRetrying ConnectionError 1 3), Slept 5, ?r], unwritable = []\<rparr>))"
    by (simp add: get_districts_body_def post_and_update_state_def send_def emit_def)
  have h3: "get_districts_body
              (time_sleep 5 (say (ErrorRetrying HTTPError 2 3)
                 (?j, \<lparr>script = [Page home_page_without_viewstate],
                       trace = [?r, Printed (ErrorRetrying ConnectionError 1 3), Slept 5, ?r], unwritable = []\<rparr>))) =
            (Inl ?e3,
             (?j, \<lparr>script = [],
                   trace = [?r, Printed (ErrorRetrying ConnectionError 1 3), Slept 5, ?r,
                            Printed (ErrorRetrying HTTPError 2 3), Slept 5, ?r,
                            Printed failed_to_extract], unwritable = []\<rparr>))"
    by (simp add: get_districts_body_def post_and_update_state_def send_def emit_def falsy_def
        home_page_without_viewstate_def blank_page_def)
  from retry_envelope_three_attempts [OF h1 a(1) h2 a(2) h3 a(3)] a
  show ?thesis
    by (simp add: get_districts_def emit_def)
qed

text \<open>
  Claim C4.  The server answers the nine requests with valid pages whose district list
  has DistrictA with code 01, whose sub-district list has TehsilA with code 001, whose
  village list has VillageA with code 0284, whose year list is the single year 2022-2023,
  whose khasra list has 6 with code 6, and whose table has one row with the fields 3 and
  9.  Then \<open>extract_data\<close> for DistrictA, TehsilA, VillageA and khasra 6, without a
  destination or with one that can be written, returns the output dict with the codes 01,
  001, 0284 and 6 and with khewat 3 and khatoni 9.
\<close>

theorem canned_run_resolves_document:
  assumes "script w = Page p0 # Page p1 # Page p2 # Page p3 # Page p4 # Page p5 # Page p6 #
                      Page p7 # Page p8 # rest"
    and "valid_initial p0" and "valid_tokens p1" and "valid_tokens p2" and "valid_tokens p3"
    and "valid_tokens p4" and "valid_tokens p5" and "valid_tokens p6" and "valid_tokens p7"
    and "dict_getitem (dict_comprehension (select_District p1)) (Some ''DistrictA'') = Some (Some ''01'')"
    and "dict_getitem (dict_comprehension (select_Tehsil p2)) (Some ''TehsilA'') = Some (Some ''001'')"
    and "dict_getitem (dict_comprehension (select_Village p3)) (Some ''VillageA'') = Some (Some ''0284'')"
    and "select_Year p4 = [''2022-2023'']"
    and "dict_getitem (dict_comprehension (select_Khasra p5)) (Some ''6'') = Some (Some ''6'')"
    and "GridView_rows p6 = [\<lparr>href = Some link, td2 = Some ''3'', td3 = Some ''9''\<rparr>]"
    and "writable dest w"
  shows "fst (extract_data ''DistrictA'' ''TehsilA'' ''VillageA'' ''6'' dest w) =
           Inr (Output
             \<lparr>out_district_name = ''DistrictA'', out_district_code = Some ''01'',
              out_tehsil_name = ''TehsilA'', out_tehsil_code = Some ''001'',
              out_villege_name = ''VillageA'', out_villege_code = Some ''0284'',
              out_jamabandi_year = ''2022-2023'',
              out_khewat_no = Some ''3'', out_khatoni_no = Some ''9'',
              out_khasra_code = Some ''6'', out_khasra_no = ''6'',
              out_inner_details =
                \<lparr>villege = lblvill p8, hadbast_no = lblhad p8, tehsil = lblteh p8,
                 district = lbldis p8, year = lblyer p8\<rparr>\<rparr>)"
  using extract_data_clean_run [OF assms(1-14) _ _ assms(16)] assms(15) by simp

text \<open>The run on the nine example pages.\<close>

theorem canned_run_resolves_document_witness:
  "fst (extract_data ''DistrictA'' ''TehsilA'' ''VillageA'' ''6'' None
          (fresh_world canned_responses)) =
     Inr (Output
       \<lparr>out_district_name = ''DistrictA'', out_district_code = Some ''01'',
        out_tehsil_name = ''TehsilA'', out_tehsil_code = Some ''001'',
        out_villege_name = ''VillageA'', out_villege_code = Some ''0284'',
        out_jamabandi_year = ''2022-2023'',
        out_khewat_no = Some ''3'', out_khatoni_no = Some ''9'',
        out_khasra_code = Some ''6'', out_khasra_no = ''6'',
        out_inner_details =
          \<lparr>villege = Some ''VillageA'', hadbast_no = Some ''50'', tehsil = Some ''TehsilA'',
           district = Some ''DistrictA'', year = Some ''2022-2023''\<rparr>\<rparr>)"
proof -
  have s: "script (fresh_world canned_responses) =
      Page home_page # Page district_page # Page tehsil_page # Page village_page #
      Page year_page # Page khasra_page # Page nakal_page # Page selected_page #
      Page document_page # []"
    by (simp add: fresh_world_def canned_responses_def)
  have y: "select_Year year_page = [''2022-2023'']"
    by (simp add: example_defs)
  have r: "GridView_rows nakal_page =
      [\<lparr>href = Some ''javascript:__doPostBack('ctl00$ContentPlaceHolder1$GridView1','Select$0')'',
        td2 = Some ''3'', td3 = Some ''9''\<rparr>]"
    by (simp add: example_defs)
  from canned_run_resolves_document
         [OF s canned_valid(1-8) canned_lookups(1-3) y canned_lookups(4) r writable_None]
  show ?thesis by (simp add: document_page_def blank_page_def)
qed

text \<open>
  Claim C5.  Whenever \<open>extract_data\<close> returns its dict, whatever was retried on the way
  and whatever the destination: the nine steps have returned in their order;
  \<open>get_years\<close> has returned a non-empty list and its first year is the year of the
  output and the year given to \<open>get_khasras\<close>, \<open>get_nakals\<close> and
  \<open>select_nakals\<close>; the table of the last reply that \<open>get_nakals\<close> consumed has
  rows, each with a link, and the candidates are the ids of the rows in their order; the
  candidate given to \<open>select_nakals\<close> is the first of them, the id of the first row;
  and the khewat and khatoni numbers of the output are those of the last row.
\<close>

theorem first_year_first_candidate_last_row:
  assumes "extract_data dn tn vn kn dest w = (Inr (Output out), w')"
  shows "\<exists>u s1 districts s2 di sub_districts s3 ti villeges s4 vi years s5 khasras s6 ki
           nakals detail s7 used p u' s8 nakal s9.
      get_jamabandi_page
        (say (Line ''Fetching jamabandi page.'') (JamabandiDataExtractor_init, w)) = (Inr u, s1) \<and>
      get_districts (say (Line ''Getting districts.'') s1) = (Inr districts, s2) \<and>
      dict_subscript districts (Some dn) = Inr di \<and>
      get_sub_districts di (say (Line ''Getting sub-districts.'') s2) = (Inr sub_districts, s3) \<and>
      dict_subscript sub_districts (Some tn) = Inr ti \<and>
      get_villeges di ti (say (Line ''Getting villeges.'') s3) = (Inr villeges, s4) \<and>
      dict_subscript villeges (Some vn) = Inr vi \<and>
      get_years di ti vi (say (Line ''Getting years.'') s4) = (Inr years, s5) \<and>
      years \<noteq> [] \<and>
      get_khasras di ti vi (hd years) (say (Line ''Getting khasras.'') s5) = (Inr khasras, s6) \<and>
      dict_subscript khasras (Some kn) = Inr ki \<and>
      get_nakals di ti vi (hd years) ki (say (Line ''Getting nakals.'') s6) =
        (Inr (nakals, detail), s7) \<and>
      script (snd s6) = used @ Page p # script (snd s7) \<and>
      GridView_rows p \<noteq> [] \<and>
      (\<forall>r \<in> set (GridView_rows p). href r \<noteq> None) \<and>
      nakals = map (\<lambda>r. nakal_id_of_href (the (href r))) (GridView_rows p) \<and>
      nakals \<noteq> [] \<and>
      hd nakals = nakal_id_of_href (the (href (hd (GridView_rows p)))) \<and>
      select_nakals di ti vi (hd years) ki (hd nakals)
        (say (Line ''Selecing nakal.'') s7) = (Inr u', s8) \<and>
      get_nakal_html dest (say (Line ''Getting nakal html.'') s8) = (Inr nakal, s9) \<and>
      w' = snd s9 \<and>
      out_jamabandi_year out = hd years \<and>
      out_khewat_no out = td2 (last (GridView_rows p)) \<and>
      out_khatoni_no out = td3 (last (GridView_rows p))"
  using assms
proof (rule extract_data_Output)
  fix u s1 districts s2 di sub_districts s3 ti villeges s4 vi y ys s5 khasras s6 ki
    n ns detail s7 u' s8 nakal s9
  assume a1: "get_jamabandi_page
      (say (Line ''Fetching jamabandi page.'') (JamabandiDataExtractor_init, w)) = (Inr u, s1)"
    and a2: "get_districts (say (Line ''Getting districts.'') s1) = (Inr districts, s2)"
    and a3: "dict_subscript districts (Some dn) = Inr di"
    and a4: "get_sub_districts di (say (Line ''Getting sub-districts.'') s2) = (Inr sub_districts, s3)"
    and a5: "dict_subscript sub_districts (Some tn) = Inr ti"
    and a6: "get_villeges di ti (say (Line ''Getting villeges.'') s3) = (Inr villeges, s4)"
    and a7: "dict_subscript villeges (Some vn) = Inr vi"
    and a8: "get_years di ti vi (say (Line ''Getting years.'') s4) = (Inr (y # ys), s5)"
    and a9: "get_khasras di ti vi y (say (Line ''Getting khasras.'') s5) = (Inr khasras, s6)"
    and a10: "dict_subscript khasras (Some kn) = Inr ki"
    and a11: "get_nakals di ti vi y ki (say (Line ''Getting nakals.'') s6) = (Inr (n # ns, detail), s7)"
    and a12: "select_nakals di ti vi y ki n (say (Line ''Selecing nakal.'') s7) = (Inr u', s8)"
    and a13: "get_nakal_html dest (say (Line ''Getting nakal html.'') s8) = (Inr nakal, s9)"
    and a14: "w' = snd s9"
    and a15: "out = \<lparr>out_district_name = dn, out_district_code = di,
          out_tehsil_name = tn, out_tehsil_code = ti,
          out_villege_name = vn, out_villege_code = vi,
          out_jamabandi_year = y,
          out_khewat_no = khewat_no detail, out_khatoni_no = khatoni_no detail,
          out_khasra_code = ki, out_khasra_no = kn,
          out_inner_details =
            \<lparr>villege = lblvill nakal, hadbast_no = lblhad nakal, tehsil = lblteh nakal,
             district = lbldis nakal, year = lblyer nakal\<rparr>\<rparr>"
  from get_nakals_Inr [OF a11] obtain used p
    where used: "script (snd (say (Line ''Getting nakals.'') s6)) = used @ Page p # script (snd s7)"
      and rows: "GridView_rows p \<noteq> []"
      and links: "\<forall>r \<in> set (GridView_rows p). href r \<noteq> None"
      and nakals: "n # ns = nakals_of_rows (GridView_rows p)"
      and detail: "detail = detail_of_rows (GridView_rows p)"
    by blast
  have b8: "y # ys \<noteq> []" by simp
  have b9: "get_khasras di ti vi (hd (y # ys)) (say (Line ''Getting khasras.'') s5) = (Inr khasras, s6)"
    using a9 by simp
  have b11: "get_nakals di ti vi (hd (y # ys)) ki (say (Line ''Getting nakals.'') s6) =
               (Inr (n # ns, detail), s7)"
    using a11 by simp
  have b11': "script (snd s6) = used @ Page p # script (snd s7)"
    using used by (simp add: say_def)
  have c1: "n # ns = map (\<lambda>r. nakal_id_of_href (the (href r))) (GridView_rows p)"
    using nakals by (simp add: nakals_of_rows_def)
  have c2: "n # ns \<noteq> []" by simp
  have first: "hd (n # ns) = nakal_id_of_href (the (href (hd (GridView_rows p))))"
    using nakals rows by (cases "GridView_rows p") (simp_all add: nakals_of_rows_def)
  have b12: "select_nakals di ti vi (hd (y # ys)) ki (hd (n # ns))
               (say (Line ''Selecing nakal.'') s7) = (Inr u', s8)"
    using a12 by simp
  have b15: "out_jamabandi_year out = hd (y # ys)"
    "out_khewat_no out = td2 (last (GridView_rows p))"
    "out_khatoni_no out = td3 (last (GridView_rows p))"
    by (simp_all add: a15 detail detail_of_rows_def)
  show ?thesis
    by (intro exI conjI; (fact a1 a2 a3 a4 a5 a6 a7 a8 b8 b9 a10 b11 b11' rows links c1 c2 first b12 a13 a14 b15))
qed

text \<open>
  A run in which the first request of \<open>get_nakals\<close> finds the server unreachable and the
  second is answered with three rows; the year list has two years.
\<close>

theorem first_year_first_candidate_last_row_witness:
  "fst (extract_data ''DistrictA'' ''TehsilA'' ''VillageA'' ''6'' None
          (fresh_world retried_responses)) =
     Inr (Output
       \<lparr>out_district_name = ''DistrictA'', out_district_code = Some ''01'',
        out_tehsil_name = ''TehsilA'', out_tehsil_code = Some ''001'',
        out_villege_name = ''VillageA'', out_villege_code = Some ''0284'',
        out_jamabandi_year = ''2022-2023'',
        out_khewat_no = Some ''7'', out_khatoni_no = Some ''15'',
        out_khasra_code = Some ''6'', out_khasra_no = ''6'',
        out_inner_details =
          \<lparr>villege = Some ''VillageA'', hadbast_no = Some ''50'', tehsil = Some ''TehsilA'',
           district = Some ''DistrictA'', year = Some ''2022-2023''\<rparr>\<rparr>) \<and>
   sleeps_of (trace (snd (extract_data ''DistrictA'' ''TehsilA'' ''VillageA'' ''6'' None
          (fresh_world retried_responses)))) = [5] \<and>
   (\<exists>years (p::page). years \<noteq> [] \<and> GridView_rows p \<noteq> [] \<and> hd years = ''2022-2023'' \<and>
        td2 (last (GridView_rows p)) = Some ''7'' \<and> td3 (last (GridView_rows p)) = Some ''15'')"
proof -
  let ?run = "extract_data ''DistrictA'' ''TehsilA'' ''VillageA'' ''6'' None
                (fresh_world retried_responses)"
  let ?out = "\<lparr>out_district_name = ''DistrictA'', out_district_code = Some ''01'',
        out_tehsil_name = ''TehsilA'', out_tehsil_code = Some ''001'',
        out_villege_name = ''VillageA'', out_villege_code = Some ''0284'',
        out_jamabandi_year = ''2022-2023'',
        out_khewat_no = Some ''7'', out_khatoni_no = Some ''15'',
        out_khasra_code = Some ''6'', out_khasra_no = ''6'',
        out_inner_details =
          \<lparr>villege = Some ''VillageA'', hadbast_no = Some ''50'', tehsil = Some ''TehsilA'',
           district = Some ''DistrictA'', year = Some ''2022-2023''\<rparr>\<rparr>"
  have h: "?run = (Inr (Output ?out), snd ?run)"
    using retried_run(1) by (simp add: prod_eq_iff)
  from first_year_first_candidate_last_row [OF h]
  have "\<exists>years (p::page). years \<noteq> [] \<and> GridView_rows p \<noteq> [] \<and>
        out_jamabandi_year ?out = hd years \<and>
        out_khewat_no ?out = td2 (last (GridView_rows p)) \<and>
        out_khatoni_no ?out = td3 (last (GridView_rows p))"
    apply (elim exE conjE)
    subgoal for u s1 districts s2 di sub_districts s3 ti villeges s4 vi years s5 khasras s6 ki
        nakals detail s7 used p
      apply (rule exI [where x = years])
      apply (rule exI [where x = p])
      apply (intro conjI; assumption)
      done
    done
  then have "\<exists>years (p::page). years \<noteq> [] \<and> GridView_rows p \<noteq> [] \<and> hd years = ''2022-2023'' \<and>
        td2 (last (GridView_rows p)) = Some ''7'' \<and> td3 (last (GridView_rows p)) = Some ''15''"
    by (elim exE conjE) (simp, metis)
  with retried_run show ?thesis by simp
qed



text \<open>
  Claim C7.  At each of the four levels: when the steps before have returned, the listing
  step has returned its dict, and the name given by the caller is not a key of that dict
  (dict membership is equality of strings), \<open>extract_data\<close> returns the message of that
  level (district, sub-district/tehsil, village, khasra number) with the name in it, as a
  value and not as an exception, and the world is the one the listing step left: nothing
  is sent, slept or printed after it.
\<close>

theorem absent_name_is_reported_at_its_level:
  "(get_jamabandi_page (say (Line ''Fetching jamabandi page.'') (JamabandiDataExtractor_init, w))
      = (Inr u, s1) \<longrightarrow>
    get_districts (say (Line ''Getting districts.'') s1) = (Inr districts, s2) \<longrightarrow>
    \<not> dict_contains districts (Some dn) \<longrightarrow>
    extract_data dn tn vn kn dest w =
      (Inr (Message (''District name:'' @ dn @ '' not found!'')), snd s2)) \<and>
   (get_jamabandi_page (say (Line ''Fetching jamabandi page.'') (JamabandiDataExtractor_init, w))
      = (Inr u, s1) \<longrightarrow>
    get_districts (say (Line ''Getting districts.'') s1) = (Inr districts, s2) \<longrightarrow>
    dict_getitem districts (Some dn) = Some di \<longrightarrow>
    get_sub_districts di (say (Line ''Getting sub-districts.'') s2) = (Inr sub_districts, s3) \<longrightarrow>
    \<not> dict_contains sub_districts (Some tn) \<longrightarrow>
    extract_data dn tn vn kn dest w =
      (Inr (Message (''sub-district/tehsil name:'' @ tn @ '' not found!'')), snd s3)) \<and>
   (get_jamabandi_page (say (Line ''Fetching jamabandi page.'') (JamabandiDataExtractor_init, w))
      = (Inr u, s1) \<longrightarrow>
    get_districts (say (Line ''Getting districts.'') s1) = (Inr districts, s2) \<longrightarrow>
    dict_getitem districts (Some dn) = Some di \<longrightarrow>
    get_sub_districts di (say (Line ''Getting sub-districts.'') s2) = (Inr sub_districts, s3) \<longrightarrow>
    dict_getitem sub_districts (Some tn) = Some ti \<longrightarrow>
    get_villeges di ti (say (Line ''Getting villeges.'') s3) = (Inr villeges, s4) \<longrightarrow>
    \<not> dict_contains villeges (Some vn) \<longrightarrow>
    extract_data dn tn vn kn dest w =
      (Inr (Message (''Villege name:'' @ vn @ '' not found!'')), snd s4)) \<and>
   (get_jamabandi_page (say (Line ''Fetching jamabandi page.'') (JamabandiDataExtractor_init, w))
      = (Inr u, s1) \<longrightarrow>
    get_districts (say (Line ''Getting districts.'') s1) = (Inr districts, s2) \<longrightarrow>
    dict_getitem districts (Some dn) = Some di \<longrightarrow>
    get_sub_districts di (say (Line ''Getting sub-districts.'') s2) = (Inr sub_districts, s3) \<longrightarrow>
    dict_getitem sub_districts (Some tn) = Some ti \<longrightarrow>
    get_villeges di ti (say (Line ''Getting villeges.'') s3) = (Inr villeges, s4) \<longrightarrow>
    dict_getitem villeges (Some vn) = Some vi \<longrightarrow>
    get_years di ti vi (say (Line ''Getting years.'') s4) = (Inr (y # ys), s5) \<longrightarrow>
    get_khasras di ti vi y (say (Line ''Getting khasras.'') s5) = (Inr khasras, s6) \<longrightarrow>
    \<not> dict_contains khasras (Some kn) \<longrightarrow>
    extract_data dn tn vn kn dest w =
      (Inr (Message (''Khasra number:'' @ kn @ '' not found!'')), snd s6))"
  by (intro conjI impI)
     (simp_all add: extract_data_def dict_getitem_contains dict_getitem_subscript)


text \<open>
  The example pages with a district in lower case, a sub-district with a space, a village
  and a khasra number that are not listed: the message, the replies not yet used, and the
  first two, three, four and six requests of the run with their progress lines.
\<close>

theorem absent_name_is_reported_at_its_level_witness:
  "extract_data ''districta'' ''TehsilA'' ''VillageA'' ''6'' None (fresh_world canned_responses) =
     (Inr (Message ''District name:districta not found!''),
      \<lparr>script = drop 2 canned_responses,
       trace = take 4 (clean_run_trace
                 (clean_run_requests [home_page, district_page, tehsil_page, village_page,
                    year_page, khasra_page, nakal_page] (Some ''01'') (Some ''001'')
                    (Some ''0284'') ''2022-2023'' (Some ''6'') ''Select$0'') None), unwritable = []\<rparr>) \<and>
   extract_data ''DistrictA'' ''Tehsil A'' ''VillageA'' ''6'' None (fresh_world canned_responses) =
     (Inr (Message ''sub-district/tehsil name:Tehsil A not found!''),
      \<lparr>script = drop 3 canned_responses,
       trace = take 6 (clean_run_trace
                 (clean_run_requests [home_page, district_page, tehsil_page, village_page,
                    year_page, khasra_page, nakal_page] (Some ''01'') (Some ''001'')
                    (Some ''0284'') ''2022-2023'' (Some ''6'') ''Select$0'') None), unwritable = []\<rparr>) \<and>
   extract_data ''DistrictA'' ''TehsilA'' ''VillageB'' ''6'' None (fresh_world canned_responses) =
     (Inr (Message ''Villege name:VillageB not found!''),
      \<lparr>script = drop 4 canned_responses,
       trace = take 8 (clean_run_trace
                 (clean_run_requests [home_page, district_page, tehsil_page, village_page,
                    year_page, khasra_page, nakal_page] (Some ''01'') (Some ''001'')
                    (Some ''0284'') ''2022-2023'' (Some ''6'') ''Select$0'') None), unwritable = []\<rparr>) \<and>
   extract_data ''DistrictA'' ''TehsilA'' ''VillageA'' ''6//1'' None (fresh_world canned_responses) =
     (Inr (Message ''Khasra number:6//1 not found!''),
      \<lparr>script = drop 6 canned_responses,
       trace = take 12 (clean_run_trace
                 (clean_run_requests [home_page, district_page, tehsil_page, village_page,
                    year_page, khasra_page, nakal_page] (Some ''01'') (Some ''001'')
                    (Some ''0284'') ''2022-2023'' (Some ''6'') ''Select$0'') None), unwritable = []\<rparr>)"
proof -
  note oks = get_jamabandi_page_ok get_districts_ok get_sub_districts_ok get_villeges_ok
    get_years_ok get_khasras_ok
  note facts = canned_valid canned_nonempty fresh_world_def canned_responses_def
  let ?s0 = "say (Line ''Fetching jamabandi page.'')
               (JamabandiDataExtractor_init, fresh_world canned_responses)"
  let ?s1 = "snd (get_jamabandi_page ?s0)"
  let ?s2 = "snd (get_districts (say (Line ''Getting districts.'') ?s1))"
  let ?s3 = "snd (get_sub_districts (Some ''01'') (say (Line ''Getting sub-districts.'') ?s2))"
  let ?s4 = "snd (get_villeges (Some ''01'') (Some ''001'') (say (Line ''Getting villeges.'') ?s3))"
  let ?s5 = "snd (get_years (Some ''01'') (Some ''001'') (Some ''0284'')
                    (say (Line ''Getting years.'') ?s4))"
  let ?s6 = "snd (get_khasras (Some ''01'') (Some ''001'') (Some ''0284'') ''2022-2023''
                    (say (Line ''Getting khasras.'') ?s5))"
  have h1: "get_jamabandi_page ?s0 = (Inr (), ?s1)"
    by (simp add: oks facts)
  have h2: "get_districts (say (Line ''Getting districts.'') ?s1) =
              (Inr (dict_comprehension (select_District district_page)), ?s2)"
    by (simp add: oks facts)
  have h3: "get_sub_districts (Some ''01'') (say (Line ''Getting sub-districts.'') ?s2) =
              (Inr (dict_comprehension (select_Tehsil tehsil_page)), ?s3)"
    by (simp add: oks facts)
  have h4: "get_villeges (Some ''01'') (Some ''001'') (say (Line ''Getting villeges.'') ?s3) =
              (Inr (dict_comprehension (select_Village village_page)), ?s4)"
    by (simp add: oks facts)
  have h5: "get_years (Some ''01'') (Some ''001'') (Some ''0284'')
              (say (Line ''Getting years.'') ?s4) = (Inr (''2022-2023'' # []), ?s5)"
    by (simp add: oks facts)
  have h6: "get_khasras (Some ''01'') (Some ''001'') (Some ''0284'') ''2022-2023''
              (say (Line ''Getting khasras.'') ?s5) =
              (Inr (dict_comprehension (select_Khasra khasra_page)), ?s6)"
    by (simp add: oks facts)
  note level = absent_name_is_reported_at_its_level
  have l1: "extract_data ''districta'' ''TehsilA'' ''VillageA'' ''6'' None
              (fresh_world canned_responses) =
            (Inr (Message (''District name:'' @ ''districta'' @ '' not found!'')), snd ?s2)"
    using level [THEN conjunct1, rule_format, OF h1 h2 canned_absent(1)] .
  have l2: "extract_data ''DistrictA'' ''Tehsil A'' ''VillageA'' ''6'' None
              (fresh_world canned_responses) =
            (Inr (Message (''sub-district/tehsil name:'' @ ''Tehsil A'' @ '' not found!'')), snd ?s3)"
    using level [THEN conjunct2, THEN conjunct1, rule_format,
               OF h1 h2 canned_lookups(1) h3 canned_absent(2)] .
  have l3: "extract_data ''DistrictA'' ''TehsilA'' ''VillageB'' ''6'' None
              (fresh_world canned_responses) =
            (Inr (Message (''Villege name:'' @ ''VillageB'' @ '' not found!'')), snd ?s4)"
    using level [THEN conjunct2, THEN conjunct2, THEN conjunct1, rule_format,
               OF h1 h2 canned_lookups(1) h3 canned_lookups(2) h4 canned_absent(3)] .
  have l4: "extract_data ''DistrictA'' ''TehsilA'' ''VillageA'' ''6//1'' None
              (fresh_world canned_responses) =
            (Inr (Message (''Khasra number:'' @ ''6//1'' @ '' not found!'')), snd ?s6)"
    using level [THEN conjunct2, THEN conjunct2, THEN conjunct2, rule_format,
               OF h1 h2 canned_lookups(1) h3 canned_lookups(2) h4 canned_lookups(3) h5 h6
                  canned_absent(4)] .
  have w2: "snd ?s2 = \<lparr>script = drop 2 canned_responses,
       trace = take 4 (clean_run_trace
                 (clean_run_requests [home_page, district_page, tehsil_page, village_page,
                    year_page, khasra_page, nakal_page] (Some ''01'') (Some ''001'')
                    (Some ''0284'') ''2022-2023'' (Some ''6'') ''Select$0'') None), unwritable = []\<rparr>"
    by (simp add: oks facts clean_run_trace_def clean_run_requests_def progress_lines_def
        Let_def answered_def emit_def)
  have w3: "snd ?s3 = \<lparr>script = drop 3 canned_responses,
       trace = take 6 (clean_run_trace
                 (clean_run_requests [home_page, district_page, tehsil_page, village_page,
                    year_page, khasra_page, nakal_page] (Some ''01'') (Some ''001'')
                    (Some ''0284'') ''2022-2023'' (Some ''6'') ''Select$0'') None), unwritable = []\<rparr>"
    by (simp add: oks facts clean_run_trace_def clean_run_requests_def progress_lines_def
        Let_def answered_def emit_def)
  have w4: "snd ?s4 = \<lparr>script = drop 4 canned_responses,
       trace = take 8 (clean_run_trace
                 (clean_run_requests [home_page, district_page, tehsil_page, village_page,
                    year_page, khasra_page, nakal_page] (Some ''01'') (Some ''001'')
                    (Some ''0284'') ''2022-2023'' (Some ''6'') ''Select$0'') None), unwritable = []\<rparr>"
    by (simp add: oks facts clean_run_trace_def clean_run_requests_def progress_lines_def
        Let_def answered_def emit_def)
  have w6: "snd ?s6 = \<lparr>script = drop 6 canned_responses,
       trace = take 12 (clean_run_trace
                 (clean_run_requests [home_page, district_page, tehsil_page, village_page,
                    year_page, khasra_page, nakal_page] (Some ''01'') (Some ''001'')
                    (Some ''0284'') ''2022-2023'' (Some ''6'') ''Select$0'') None), unwritable = []\<rparr>"
    by (simp add: oks facts clean_run_trace_def clean_run_requests_def progress_lines_def
        Let_def answered_def emit_def)
  show ?thesis
    unfolding l1 l2 l3 l4 w2 w3 w4 w6 by simp
qed

text \<open>
  Claim C8.  When the table holds a record with the four names and force refresh is off,
  the program ends with the list of the matching records as its result; the table is the
  same and the world is the same: no request has been sent and no reply consumed.
\<close>

theorem cache_hit_skips_session:
  assumes "search_records_by_input_data db dn tn vn kn \<noteq> []"
  shows "main dn tn vn kn False db w =
           (Inr (Records (search_records_by_input_data db dn tn vn kn)), db, w)"
  using assms by (simp add: main_def)

text \<open>The example table holds the record of DistrictA, TehsilA, VillageA, 6 under id 2.\<close>

theorem cache_hit_skips_session_witness:
  "search_records_by_input_data example_table ''DistrictA'' ''TehsilA'' ''VillageA'' ''6'' =
     [\<lparr>id_col = 2, cols = stored_data\<rparr>] \<and>
   main ''DistrictA'' ''TehsilA'' ''VillageA'' ''6'' False example_table
     (fresh_world canned_responses) =
     (Inr (Records [\<lparr>id_col = 2, cols = stored_data\<rparr>]), example_table,
      \<lparr>script = canned_responses, trace = [], unwritable = []\<rparr>)"
proof -
  have s: "search_records_by_input_data example_table ''DistrictA'' ''TehsilA'' ''VillageA'' ''6'' =
     [\<lparr>id_col = 2, cols = stored_data\<rparr>]"
    by (simp add: table_defs)
  then have "search_records_by_input_data example_table ''DistrictA'' ''TehsilA'' ''VillageA'' ''6'' \<noteq> []"
    by simp
  from cache_hit_skips_session [OF this, of "fresh_world canned_responses"] s
  show ?thesis by (simp add: fresh_world_def)
qed

text \<open>
  Claim C9, as the code has it.  The table holds a record with the four names, its ids
  are unique (\<open>id\<close> is the primary key), force refresh is on and \<open>extract_data\<close>
  returns its dict.  Then the run has sent at least nine requests.  When no value of the
  dict is \<open>None\<close>, the first matching record has all its columns overwritten with the
  new data and is the result.  When a value is \<open>None\<close>, the commit of
  \<open>update_record\<close> raises \<open>IntegrityError\<close>, nothing catches it, and the table is as
  it was.  Either way the ids in the table are the same, every record with another id is
  as it was, and as many records match the four names as before.
\<close>

theorem force_refresh_updates_in_place:
  assumes "search_records_by_input_data db dn tn vn kn = first # others"
    and "distinct (map id_col db)"
    and "extract_data dn tn vn kn (Some (html_path dn tn vn kn))
           (emit (Printed extraction_started) w) = (Inr (Output out), w1)"
  shows "main dn tn vn kn True db w =
           (if not_null (data_of_output out)
            then (Inr (Stored (Some (first\<lparr>cols := data_of_output out\<rparr>))),
                  set_cols (id_col first) (data_of_output out) db, w1)
            else (Inl IntegrityError, db, w1)) \<and>
         length (requests_of (trace w)) + 9 \<le> length (requests_of (trace w1)) \<and>
         map id_col (fst (snd (main dn tn vn kn True db w))) = map id_col db \<and>
         find (\<lambda>r. id_col r = id_col first) (fst (snd (main dn tn vn kn True db w))) =
           Some (if not_null (data_of_output out) then first\<lparr>cols := data_of_output out\<rparr>
                 else first) \<and>
         filter (\<lambda>r. id_col r \<noteq> id_col first) (fst (snd (main dn tn vn kn True db w))) =
           filter (\<lambda>r. id_col r \<noteq> id_col first) db \<and>
         length (search_records_by_input_data (fst (snd (main dn tn vn kn True db w)))
                   dn tn vn kn) =
           length (search_records_by_input_data db dn tn vn kn)"
proof -
  let ?data = "data_of_output out"
  from search_first_in_table [OF assms(1)]
  have first: "first \<in> set db" and m: "matches dn tn vn kn first" by simp_all
  have f: "find (\<lambda>r. id_col r = id_col first) db = Some first"
    using find_by_id [OF assms(2) first] .
  have names: "out_district_name out = dn" "out_tehsil_name out = tn"
    "out_villege_name out = vn" "out_khasra_no out = kn"
    using assms(3) by (auto elim!: extract_data_Output)
  have m': "matches dn tn vn kn (first\<lparr>cols := ?data\<rparr>)"
    by (simp add: matches_def data_of_output_def names)
  have upd: "update_record db (id_col first) ?data =
               (if not_null ?data
                then (Inr (Some (first\<lparr>cols := ?data\<rparr>)), set_cols (id_col first) ?data db)
                else (Inl IntegrityError, db))"
    by (simp add: update_record_def f)
  have 1: "main dn tn vn kn True db w =
           (if not_null ?data
            then (Inr (Stored (Some (first\<lparr>cols := ?data\<rparr>))),
                  set_cols (id_col first) ?data db, w1)
            else (Inl IntegrityError, db, w1))"
    by (simp add: main_def assms(1,3) create_record_by_checking_record_def upd)
  have 2: "length (requests_of (trace w)) + 9 \<le> length (requests_of (trace w1))"
    using extract_data_sends_nine [OF assms(3)] by simp
  have db': "fst (snd (main dn tn vn kn True db w)) =
               (if not_null ?data then set_cols (id_col first) ?data db else db)"
    by (simp add: 1)
  have 3: "map id_col (fst (snd (main dn tn vn kn True db w))) = map id_col db"
    by (simp add: db' map_id_set_cols)
  have 4: "find (\<lambda>r. id_col r = id_col first) (fst (snd (main dn tn vn kn True db w))) =
             Some (if not_null ?data then first\<lparr>cols := ?data\<rparr> else first)"
    by (simp add: db' find_set_cols [OF first] f)
  have 5: "filter (\<lambda>r. id_col r \<noteq> id_col first) (fst (snd (main dn tn vn kn True db w))) =
             filter (\<lambda>r. id_col r \<noteq> id_col first) db"
    by (simp add: db' filter_others_set_cols)
  have "length (search_records_by_input_data (set_cols (id_col first) ?data db) dn tn vn kn) =
          length (search_records_by_input_data db dn tn vn kn)"
    unfolding search_records_by_input_data_def
    by (rule filter_set_cols [OF assms(2) first m m'])
  then have 6: "length (search_records_by_input_data (fst (snd (main dn tn vn kn True db w)))
                   dn tn vn kn) =
             length (search_records_by_input_data db dn tn vn kn)"
    by (simp add: db')
  show ?thesis
    by (intro conjI 1 2 3 4 5 6)
qed

text \<open>The example table and the example pages: record 2 gets the year and the numbers of the run.\<close>

theorem force_refresh_updates_in_place_witness:
  "search_records_by_input_data example_table ''DistrictA'' ''TehsilA'' ''VillageA'' ''6'' =
     [\<lparr>id_col = 2, cols = stored_data\<rparr>] \<and>
   fst (main ''DistrictA'' ''TehsilA'' ''VillageA'' ''6'' True example_table
          (fresh_world canned_responses)) =
     Inr (Stored (Some
       \<lparr>id_col = 2,
        cols = stored_data\<lparr>jamabandi_year := Some ''2022-2023'', khewat_no_col := Some ''3'',
                 khatoni_no_col := Some ''9'', nakal_year := Some ''2022-2023''\<rparr>\<rparr>)) \<and>
   fst (snd (main ''DistrictA'' ''TehsilA'' ''VillageA'' ''6'' True example_table
          (fresh_world canned_responses))) =
     [\<lparr>id_col = 1, cols = stored_data\<lparr>khasra_code := Some ''5'', khasra_no := Some ''5''\<rparr>\<rparr>,
      \<lparr>id_col = 2,
       cols = stored_data\<lparr>jamabandi_year := Some ''2022-2023'', khewat_no_col := Some ''3'',
                khatoni_no_col := Some ''9'', nakal_year := Some ''2022-2023''\<rparr>\<rparr>] \<and>
   length (requests_of (trace (snd (snd (main ''DistrictA'' ''TehsilA'' ''VillageA'' ''6'' True
          example_table (fresh_world canned_responses)))))) = 9"
proof -
  have s: "search_records_by_input_data example_table ''DistrictA'' ''TehsilA'' ''VillageA'' ''6'' =
     \<lparr>id_col = 2, cols = stored_data\<rparr> # []"
    by (simp add: table_defs)
  have d: "distinct (map id_col example_table)"
    by (simp add: example_table_def)
  have n: "not_null (data_of_output
       \<lparr>out_district_name = ''DistrictA'', out_district_code = Some ''01'',
        out_tehsil_name = ''TehsilA'', out_tehsil_code = Some ''001'',
        out_villege_name = ''VillageA'', out_villege_code = Some ''0284'',
        out_jamabandi_year = ''2022-2023'',
        out_khewat_no = Some ''3'', out_khatoni_no = Some ''9'',
        out_khasra_code = Some ''6'', out_khasra_no = ''6'',
        out_inner_details =
          \<lparr>villege = Some ''VillageA'', hadbast_no = Some ''50'', tehsil = Some ''TehsilA'',
           district = Some ''DistrictA'', year = Some ''2022-2023''\<rparr>\<rparr>)"
    by (simp add: not_null_def data_of_output_def)
  from force_refresh_updates_in_place [OF s d canned_run_to_file, THEN conjunct1] s n
  show ?thesis
    by (simp add: example_table_def stored_data_def data_of_output_def clean_run_trace_def
        clean_run_requests_def progress_lines_def Let_def)
qed

text \<open>
  The claim as the specification has it fails on the example table when the document
  that the last step fetches has no \<open>lblhad\<close> span: force refresh is on, record 2
  matches the four names, the nine steps succeed at their first attempt and
  \<open>extract_data\<close> returns its dict, with \<open>None\<close> as \<open>hadbast_no\<close>; the program ends in
  \<open>IntegrityError\<close> and record 2 is not overwritten.
\<close>

theorem force_refresh_without_hadbast_updates_nothing:
  "search_records_by_input_data example_table ''DistrictA'' ''TehsilA'' ''VillageA'' ''6'' =
     [\<lparr>id_col = 2, cols = stored_data\<rparr>] \<and>
   fst (extract_data ''DistrictA'' ''TehsilA'' ''VillageA'' ''6''
          (Some (html_path ''DistrictA'' ''TehsilA'' ''VillageA'' ''6''))
          (emit (Printed extraction_started) (fresh_world responses_without_hadbast))) =
     Inr (Output
       \<lparr>out_district_name = ''DistrictA'', out_district_code = Some ''01'',
        out_tehsil_name = ''TehsilA'', out_tehsil_code = Some ''001'',
        out_villege_name = ''VillageA'', out_villege_code = Some ''0284'',
        out_jamabandi_year = ''2022-2023'',
        out_khewat_no = Some ''3'', out_khatoni_no = Some ''9'',
        out_khasra_code = Some ''6'', out_khasra_no = ''6'',
        out_inner_details =
          \<lparr>villege = Some ''VillageA'', hadbast_no = None, tehsil = Some ''TehsilA'',
           district = Some ''DistrictA'', year = Some ''2022-2023''\<rparr>\<rparr>) \<and>
   fst (main ''DistrictA'' ''TehsilA'' ''VillageA'' ''6'' True example_table
          (fresh_world responses_without_hadbast)) = Inl IntegrityError \<and>
   fst (snd (main ''DistrictA'' ''TehsilA'' ''VillageA'' ''6'' True example_table
          (fresh_world responses_without_hadbast))) = example_table \<and>
   length (requests_of (trace (snd (snd (main ''DistrictA'' ''TehsilA'' ''VillageA'' ''6'' True
          example_table (fresh_world responses_without_hadbast)))))) = 9 \<and>
   sleeps_of (trace (snd (snd (main ''DistrictA'' ''TehsilA'' ''VillageA'' ''6'' True
          example_table (fresh_world responses_without_hadbast))))) = []"
proof -
  have s: "search_records_by_input_data example_table ''DistrictA'' ''TehsilA'' ''VillageA'' ''6'' =
     [\<lparr>id_col = 2, cols = stored_data\<rparr>]"
    by (simp add: table_defs)
  have f: "find (\<lambda>r. id_col r = 2) example_table = Some \<lparr>id_col = 2, cols = stored_data\<rparr>"
    by (simp add: example_table_def)
  show ?thesis
    by (simp add: main_def s run_without_hadbast create_record_by_checking_record_def
        update_record_def f not_null_def data_of_output_def clean_run_trace_def
        clean_run_requests_def progress_lines_def Let_def)
qed

text \<open>
  Claim C10, as the code has it.  The first GET succeeds on a page without the
  \<open>__EVENTARGUMENT\<close> input when the three other fields are there, and leaves
  \<open>event_arg\<close> as \<open>None\<close>.  In the run that follows, the five steps from
  \<open>get_sub_districts\<close> to \<open>get_nakals\<close> send \<open>None\<close> under \<open>__EVENTARGUMENT\<close>;
  \<open>get_districts\<close> sends the empty string and \<open>select_nakals\<close> sends the id of the
  candidate; the two GET requests have no form data.  The run is one whose steps succeed at
  the first attempt, without a destination or with one that can be written.  At every
  attempt of any run, the form data of the five steps hold the session's \<open>event_arg\<close>
  under \<open>__EVENTARGUMENT\<close>, and no POST step changes \<open>event_arg\<close>.
\<close>

theorem event_argument_without_hidden_field:
  assumes "script w = Page p0 # Page p1 # Page p2 # Page p3 # Page p4 # Page p5 # Page p6 #
                      Page p7 # Page p8 # rest"
    and "valid_initial p0" and "valid_tokens p1" and "valid_tokens p2" and "valid_tokens p3"
    and "valid_tokens p4" and "valid_tokens p5" and "valid_tokens p6" and "valid_tokens p7"
    and "dict_getitem (dict_comprehension (select_District p1)) (Some dn) = Some di"
    and "dict_getitem (dict_comprehension (select_Tehsil p2)) (Some tn) = Some ti"
    and "dict_getitem (dict_comprehension (select_Village p3)) (Some vn) = Some vi"
    and "select_Year p4 = y # ys"
    and "dict_getitem (dict_comprehension (select_Khasra p5)) (Some kn) = Some ki"
    and "GridView_rows p6 \<noteq> []" and "\<forall>r \<in> set (GridView_rows p6). href r \<noteq> None"
    and "input_EVENTARGUMENT p0 = None"
    and "writable dest w"
  shows "get_jamabandi_page (JamabandiDataExtractor_init, w) =
           (Inr (),
            (initial_tokens p0,
             answered (GET jamabandi_uri (Some request_timeout))
               (Page p1 # Page p2 # Page p3 # Page p4 # Page p5 # Page p6 # Page p7 # Page p8 # rest)
               w)) \<and>
         event_arg (initial_tokens p0) = None \<and>
         map (field_of ''__EVENTARGUMENT'')
           (drop (length (requests_of (trace w)))
              (requests_of (trace (snd (extract_data dn tn vn kn dest w))))) =
           [None, Some (Some []), Some None, Some None, Some None, Some None, Some None,
            Some (Some (nakal_id_of_href (the (href (hd (GridView_rows p6)))))), None] \<and>
         map (\<lambda>data. map_of data ''__EVENTARGUMENT'')
           [get_districts_data j, get_sub_districts_data j a, get_villeges_data j a b,
            get_years_data j a b c, get_khasras_data j a b c d, get_nakals_data j a b c d e,
            select_nakals_data j a b c d e n] =
           [Some (Some []), Some (event_arg j), Some (event_arg j), Some (event_arg j),
            Some (event_arg j), Some (event_arg j), Some (Some n)] \<and>
         event_arg (fst (snd (post_and_update_state data t (j, w1)))) = event_arg j"
proof -
  have 1: "get_jamabandi_page (JamabandiDataExtractor_init, w) =
           (Inr (),
            (initial_tokens p0,
             answered (GET jamabandi_uri (Some request_timeout))
               (Page p1 # Page p2 # Page p3 # Page p4 # Page p5 # Page p6 # Page p7 # Page p8 # rest)
               w))"
    using assms(1,2) by (rule get_jamabandi_page_ok)
  have 2: "event_arg (initial_tokens p0) = None"
    by (simp add: initial_tokens_def assms(17))
  have 3: "map (field_of ''__EVENTARGUMENT'')
           (drop (length (requests_of (trace w)))
              (requests_of (trace (snd (extract_data dn tn vn kn dest w))))) =
           [None, Some (Some []), Some None, Some None, Some None, Some None, Some None,
            Some (Some (nakal_id_of_href (the (href (hd (GridView_rows p6)))))), None]"
    unfolding extract_data_clean_run [OF assms(1-16) assms(18)]
    by (simp add: 2 clean_run_trace_def clean_run_requests_def progress_lines_def Let_def
        get_districts_data_def get_sub_districts_data_def get_villeges_data_def
        get_years_data_def get_khasras_data_def get_nakals_data_def select_nakals_data_def
        form_data_def refreshed_def split: option.splits)
  have 4: "map (\<lambda>data. map_of data ''__EVENTARGUMENT'')
           [get_districts_data j, get_sub_districts_data j a, get_villeges_data j a b,
            get_years_data j a b c, get_khasras_data j a b c d, get_nakals_data j a b c d e,
            select_nakals_data j a b c d e n] =
           [Some (Some []), Some (event_arg j), Some (event_arg j), Some (event_arg j),
            Some (event_arg j), Some (event_arg j), Some (Some n)]"
    by (simp add: get_districts_data_def get_sub_districts_data_def get_villeges_data_def
        get_years_data_def get_khasras_data_def get_nakals_data_def select_nakals_data_def
        form_data_def)
  have 5: "event_arg (fst (snd (post_and_update_state data t (j, w1)))) = event_arg j"
    by (simp add: post_and_update_state_def say_def split: prod.splits sum.splits)
  show ?thesis by (intro conjI 1 2 3 4 5)
qed

text \<open>The example run with a first page that has no \<open>__EVENTARGUMENT\<close> input.\<close>

theorem event_argument_without_hidden_field_witness:
  "fst (get_jamabandi_page
          (JamabandiDataExtractor_init, fresh_world responses_without_argument)) = Inr () \<and>
   event_arg (initial_tokens home_page_without_argument) = None \<and>
   map (field_of ''__EVENTARGUMENT'')
     (requests_of (trace (snd (extract_data ''DistrictA'' ''TehsilA'' ''VillageA'' ''6'' None
        (fresh_world responses_without_argument))))) =
     [None, Some (Some []), Some None, Some None, Some None, Some None, Some None,
      Some (Some ''Select$0''), None]"
proof -
  have r: "GridView_rows nakal_page \<noteq> []" "\<forall>r \<in> set (GridView_rows nakal_page). href r \<noteq> None"
    by (simp_all add: without_argument_script(4))
  from event_argument_without_hidden_field
         [OF without_argument_script(1) canned_valid(12) canned_valid(2-8) canned_lookups(1-3)
             canned_nonempty(4) canned_lookups(4) r without_argument_script(3) writable_None]
  show ?thesis
    by (simp add: without_argument_script(2,4) example_nakal_id)
qed

text \<open>
  The claim as it was stated fails at the step right after the first GET:
  \<open>get_districts\<close> sends the empty string, not \<open>None\<close>.
\<close>

theorem districts_request_has_empty_argument:
  "event_arg (fst (snd (get_jamabandi_page
     (JamabandiDataExtractor_init, fresh_world responses_without_argument)))) = None \<and>
   map (field_of ''__EVENTARGUMENT'')
     (requests_of (trace (snd (snd (get_districts (snd (get_jamabandi_page
        (JamabandiDataExtractor_init, fresh_world responses_without_argument)))))))) =
     [None, Some (Some [])]"
proof -
  note 1 = get_jamabandi_page_ok [OF without_argument_script(1) canned_valid(12),
             of JamabandiDataExtractor_init]
  have 2: "event_arg (initial_tokens home_page_without_argument) = None"
    by (simp add: initial_tokens_def without_argument_script(3))
  show ?thesis
    unfolding 1
    by (simp add: 2 get_districts_ok canned_valid canned_nonempty without_argument_script(2)
        get_districts_data_def form_data_def)
qed

end
